theory Spec2Isabelle
  imports Complex_Main "HOL-Library.Sublist"
begin

text \<open>
  A model of the gateway that serves an OpenAI-compatible chat-completion interface and
  relays each request to an upstream conversational API: the translation of the request
  (\<open>utils.js\<close>: model policy, content extraction, conversation translation, tool schema
  adaptation, generation config, request assembly) and the HTTP surface (the auth
  middleware and the handler of \<open>POST /v1/chat/completions\<close> with its stream relay and its
  error classification). Functions of the code are functions of the model under their own
  names; a function that can raise returns a sum with the error on the left; a function that
  writes to the response takes the response and returns it updated.
\<close>

section \<open>JavaScript values used by the code\<close>

text \<open>
  JavaScript strings are modelled as \<^typ>\<open>string\<close>, read as the UTF-8 bytes of the text.
  Every marker the code searches for is ASCII, and an ASCII byte never occurs inside a
  multi-byte UTF-8 sequence, so \<open>includes\<close>, \<open>startsWith\<close> and \<open>endsWith\<close> on markers
  agree with their JavaScript counterparts. A value that may be \<open>undefined\<close> or \<open>null\<close> is an
  \<open>option\<close>. JavaScript numbers that the code only passes through are \<^typ>\<open>real\<close>.
\<close>

definition js_includes :: "string \<Rightarrow> string \<Rightarrow> bool" where
  "js_includes s marker = sublist marker s"

definition js_startsWith :: "string \<Rightarrow> string \<Rightarrow> bool" where
  "js_startsWith s p = prefix p s"

definition js_endsWith :: "string \<Rightarrow> string \<Rightarrow> bool" where
  "js_endsWith s p = suffix p s"

text \<open>Truthiness of an optional string: \<open>undefined\<close>, \<open>null\<close> and \<open>""\<close> are falsy.\<close>

fun truthy_string :: "string option \<Rightarrow> bool" where
  "truthy_string None = False"
| "truthy_string (Some s) = (s \<noteq> [])"

text \<open>A non-negative integer as a decimal string, as a template literal prints it.\<close>

function nat_to_string :: "nat \<Rightarrow> string" where
  "nat_to_string n =
     (if n < 10 then [char_of (48 + n)]
      else nat_to_string (n div 10) @ [char_of (48 + n mod 10)])"
  by pat_completeness auto
termination
  by (relation "measure id") auto

text \<open>A raised JavaScript error: its \<open>message\<close> and, when it carries one, its \<open>status\<close>.\<close>

record js_error =
  err_message :: string
  err_status :: "nat option"

section \<open>Model policy (utils.js: modelMapping, isEnableThinking)\<close>

definition modelMapping :: "string \<Rightarrow> string" where
  "modelMapping modelName =
     (if modelName = ''claude-sonnet-4-5-thinking'' then ''claude-sonnet-4-5''
      else if modelName = ''claude-opus-4-5'' then ''claude-opus-4-5-thinking''
      else if modelName = ''gemini-2.5-flash-thinking'' then ''gemini-2.5-flash''
      else modelName)"

definition isEnableThinking :: "string \<Rightarrow> bool" where
  "isEnableThinking modelName =
     (js_endsWith modelName ''-thinking'' \<or>
      modelName = ''gemini-2.5-pro'' \<or>
      js_startsWith modelName ''gemini-3-pro-'' \<or>
      modelName = ''rev19-uic3-1p'' \<or>
      modelName = ''gpt-oss-120b-medium'')"

section \<open>Content extractor (utils.js: extractImagesFromContent)\<close>

text \<open>
  A message's \<open>content\<close> is a string, an array of typed items, or absent (\<open>null\<close> or
  \<open>undefined\<close>). An item is \<open>{type: "text", text}\<close>, \<open>{type: "image_url", image_url?: {url?}}\<close>
  or an item of any other type.
\<close>

datatype content_item = TextItem string | ImageUrlItem "string option" | OtherItem

datatype content = NoContent | TextContent string | ArrayContent "content_item list"

text \<open>
  The parts of an upstream turn. Of a \<open>functionCall\<close> part the code reads \<open>id\<close> and \<open>name\<close>; a
  \<open>functionResponse\<close> part carries the resolved name and the tool's content unchanged.
\<close>

datatype part =
    TextPart string
  | InlineData string string
  | FunctionCall "string option" string
  | FunctionResponse string content

record extracted =
  ex_text :: string
  ex_images :: "part list"

text \<open>The character class \<open>\w\<close> of the regular expression: ASCII letters, digits and underscore.\<close>

definition is_word_char :: "char \<Rightarrow> bool" where
  "is_word_char c =
     (let n = (of_char c :: nat)
      in (48 \<le> n \<and> n \<le> 57) \<or> (65 \<le> n \<and> n \<le> 90) \<or> (97 \<le> n \<and> n \<le> 122) \<or> n = 95)"

text \<open>
  The class \<open>.\<close> excludes the line terminators LF, CR, U+2028 and U+2029 (the last two are
  the bytes E2 80 A8 and E2 80 A9).
\<close>

fun no_line_terminator :: "string \<Rightarrow> bool" where
  "no_line_terminator [] = True"
| "no_line_terminator (c # cs) =
     ((of_char c :: nat) \<noteq> 10 \<and> (of_char c :: nat) \<noteq> 13 \<and>
      \<not> (c = CHR 0xE2 \<and> (prefix [CHR 0x80, CHR 0xA8] cs \<or> prefix [CHR 0x80, CHR 0xA9] cs)) \<and>
      no_line_terminator cs)"

text \<open>
  \<open>imageUrl.match(/^data:image\/(\w+);base64,(.+)$/)\<close>: the two groups when the whole URL
  matches. \<open>\w+\<close> must take the whole run of word characters, since the next character has to be
  the semicolon, and \<open>.+\<close> must reach the end of the input.
\<close>

definition match_data_uri :: "string \<Rightarrow> (string \<times> string) option" where
  "match_data_uri imageUrl =
     (if prefix ''data:image/'' imageUrl then
        (let rest = drop (length ''data:image/'') imageUrl;
             format = takeWhile is_word_char rest;
             rest' = dropWhile is_word_char rest
         in if format \<noteq> [] \<and> prefix '';base64,'' rest' then
              (let base64Data = drop (length '';base64,'') rest'
               in if base64Data \<noteq> [] \<and> no_line_terminator base64Data
                  then Some (format, base64Data) else None)
            else None)
      else None)"

fun extract_items :: "content_item list \<Rightarrow> extracted \<Rightarrow> extracted" where
  "extract_items [] result = result"
| "extract_items (TextItem t # items) result =
     extract_items items (result\<lparr>ex_text := ex_text result @ t\<rparr>)"
| "extract_items (ImageUrlItem u # items) result =
     (let imageUrl = (case u of None \<Rightarrow> [] | Some s \<Rightarrow> s)
      in case match_data_uri imageUrl of
           Some (format, base64Data) \<Rightarrow>
             extract_items items
               (result\<lparr>ex_images := ex_images result @ [InlineData (''image/'' @ format) base64Data]\<rparr>)
         | None \<Rightarrow> extract_items items result)"
| "extract_items (OtherItem # items) result = extract_items items result"

definition extractImagesFromContent :: "content \<Rightarrow> extracted" where
  "extractImagesFromContent c =
     (case c of
        TextContent s \<Rightarrow> \<lparr>ex_text = s, ex_images = []\<rparr>
      | ArrayContent items \<Rightarrow> extract_items items \<lparr>ex_text = [], ex_images = []\<rparr>
      | NoContent \<Rightarrow> \<lparr>ex_text = [], ex_images = []\<rparr>)"

section \<open>Conversation translator (utils.js: openaiMessageToAntigravity)\<close>

record turn =
  role :: string
  parts :: "part list"

text \<open>A client tool call \<open>{id, function: {name, arguments}}\<close>.\<close>

record tool_call =
  tc_id :: string
  tc_name :: string
  tc_arguments :: string

record message =
  msg_role :: string
  msg_content :: content
  tool_calls :: "tool_call list option"
  tool_call_id :: "string option"
  msg_name :: "string option"

definition handleUserMessage :: "extracted \<Rightarrow> turn list \<Rightarrow> turn list" where
  "handleUserMessage ex antigravityMessages =
     antigravityMessages @ [\<lparr>role = ''user'', parts = TextPart (ex_text ex) # ex_images ex\<rparr>]"

subsection \<open>Assistant messages\<close>

definition newline :: string where
  "newline = [CHR 0x0A]"

fun js_join :: "string \<Rightarrow> string list \<Rightarrow> string" where
  "js_join sep [] = []"
| "js_join sep [x] = x"
| "js_join sep (x # y # ys) = x @ sep @ js_join sep (y # ys)"

text \<open>The template literal of the note for one tool call.\<close>

definition tool_note :: "tool_call \<Rightarrow> string" where
  "tool_note tc =
     ''[System Note: Model requested tool '' @ [CHR 0x27] @ tc_name tc @ [CHR 0x27] @
     '' with args: '' @ tc_arguments tc @ '']''"

text \<open>
  The local variable \<open>content\<close> of \<open>handleAssistantMessage\<close> holds a string or, when the
  message's content is an array, that array (\<open>message.content || ''\<close> keeps an array: arrays are
  truthy). Adding a string to an array converts the array with \<open>Array.prototype.toString\<close>,
  which joins its elements with commas; every element is an object and prints as
  \<open>[object Object]\<close>.
\<close>

datatype js_text = JsString string | JsArray "content_item list"

definition content_or_empty :: "content \<Rightarrow> js_text" where
  "content_or_empty c =
     (case c of NoContent \<Rightarrow> JsString [] | TextContent s \<Rightarrow> JsString s | ArrayContent xs \<Rightarrow> JsArray xs)"

fun js_truthy :: "js_text \<Rightarrow> bool" where
  "js_truthy (JsString s) = (s \<noteq> [])"
| "js_truthy (JsArray xs) = True"

fun js_to_string :: "js_text \<Rightarrow> string" where
  "js_to_string (JsString s) = s"
| "js_to_string (JsArray xs) = js_join '','' (map (\<lambda>x. ''[object Object]'') xs)"

text \<open>
  \<open>s.trim() === ''\<close>: the string consists of white space and line terminators only. In UTF-8
  these are the bytes 09 to 0D and 20, the two-byte U+00A0, and the three-byte U+1680,
  U+2000 to U+200A, U+2028, U+2029, U+202F, U+205F, U+3000 and U+FEFF.
\<close>

definition ws1 :: "char \<Rightarrow> bool" where
  "ws1 a = (let n = (of_char a :: nat) in (9 \<le> n \<and> n \<le> 13) \<or> n = 32)"

definition ws2 :: "char \<Rightarrow> char \<Rightarrow> bool" where
  "ws2 a b = (a = CHR 0xC2 \<and> b = CHR 0xA0)"

definition ws3 :: "char \<Rightarrow> char \<Rightarrow> char \<Rightarrow> bool" where
  "ws3 a b c =
     (let n = (of_char c :: nat)
      in (a = CHR 0xE1 \<and> b = CHR 0x9A \<and> c = CHR 0x80) \<or>
         (a = CHR 0xE2 \<and> b = CHR 0x80 \<and> ((128 \<le> n \<and> n \<le> 138) \<or> n = 168 \<or> n = 169 \<or> n = 175)) \<or>
         (a = CHR 0xE2 \<and> b = CHR 0x81 \<and> c = CHR 0x9F) \<or>
         (a = CHR 0xE3 \<and> b = CHR 0x80 \<and> c = CHR 0x80) \<or>
         (a = CHR 0xEF \<and> b = CHR 0xBB \<and> c = CHR 0xBF))"

fun js_blank :: "string \<Rightarrow> bool" where
  "js_blank [] = True"
| "js_blank [a] = ws1 a"
| "js_blank [a, b] = (if ws1 a then js_blank [b] else ws2 a b)"
| "js_blank (a # b # c # r) =
     (if ws1 a then js_blank (b # c # r)
      else if ws2 a b then js_blank (c # r)
      else if ws3 a b c then js_blank r
      else False)"

definition trim_type_error :: js_error where
  "trim_type_error = \<lparr>err_message = ''content.trim is not a function'', err_status = None\<rparr>"

definition handleAssistantMessage :: "message \<Rightarrow> turn list \<Rightarrow> js_error + turn list" where
  "handleAssistantMessage message antigravityMessages =
     (let toolCalls = (case tool_calls message of None \<Rightarrow> [] | Some tcs \<Rightarrow> tcs);
          hasToolCalls = (length toolCalls > 0);
          content0 = content_or_empty (msg_content message);
          content1 =
            (if hasToolCalls then
               (let toolDescriptions = js_join newline (map tool_note toolCalls);
                    content' = (if js_truthy content0 then JsString (js_to_string content0 @ newline)
                                else content0)
                in JsString (js_to_string content' @ toolDescriptions))
             else content0)
      in case content1 of
           JsArray xs \<Rightarrow> Inl trim_type_error
         | JsString s \<Rightarrow>
             Inr (antigravityMessages @
                  [\<lparr>role = ''model'',
                    parts = [TextPart (if s \<noteq> [] \<and> \<not> js_blank s then s else ''...'')]\<rparr>]))"

subsection \<open>Tool messages\<close>

text \<open>
  The branch for the role \<open>tool\<close> is written out in the loop of \<open>openaiMessageToAntigravity\<close>.
  The function \<open>handleToolCall\<close> of the same file, which would merge a tool result into a
  preceding \<open>user\<close> turn, is called nowhere and is not part of the translation.
\<close>

text \<open>
  The inner loop over the parts of one turn: the first \<open>functionCall\<close> part whose id equals the
  message's \<open>tool_call_id\<close> sets \<open>functionName\<close> and ends the loop; otherwise \<open>functionName\<close> keeps
  its value.
\<close>

fun scan_parts :: "string option \<Rightarrow> part list \<Rightarrow> string option \<Rightarrow> string option" where
  "scan_parts tid [] functionName = functionName"
| "scan_parts tid (FunctionCall cid nm # ps) functionName =
     (if cid = tid then Some nm else scan_parts tid ps functionName)"
| "scan_parts tid (p # ps) functionName = scan_parts tid ps functionName"

text \<open>
  The outer loop, from the last turn to the first (the argument is the reversed list): only
  \<open>model\<close> turns are searched, and the loop ends as soon as \<open>functionName\<close> is truthy.
\<close>

fun scan_turns :: "string option \<Rightarrow> turn list \<Rightarrow> string option \<Rightarrow> string option" where
  "scan_turns tid [] functionName = functionName"
| "scan_turns tid (t # ts) functionName =
     (let functionName' = (if role t = ''model'' then scan_parts tid (parts t) functionName
                           else functionName)
      in if truthy_string functionName' then functionName' else scan_turns tid ts functionName')"

definition resolveFunctionName :: "message \<Rightarrow> turn list \<Rightarrow> string" where
  "resolveFunctionName message antigravityMessages =
     (let functionName =
            (if \<not> truthy_string (msg_name message)
             then scan_turns (tool_call_id message) (rev antigravityMessages) (msg_name message)
             else msg_name message)
      in case functionName of
           Some n \<Rightarrow> if n \<noteq> [] then n else ''unknown_tool''
         | None \<Rightarrow> ''unknown_tool'')"

definition fakeUserToolMessage :: "message \<Rightarrow> turn list \<Rightarrow> turn" where
  "fakeUserToolMessage message antigravityMessages =
     \<lparr>role = ''user'',
      parts = [FunctionResponse (resolveFunctionName message antigravityMessages)
                 (msg_content message)]\<rparr>"

subsection \<open>The loop over the client messages\<close>

fun translate_loop :: "message list \<Rightarrow> turn list \<Rightarrow> js_error + turn list" where
  "translate_loop [] antigravityMessages = Inr antigravityMessages"
| "translate_loop (message # rest) antigravityMessages =
     (if msg_role message = ''user'' then
        translate_loop rest
          (handleUserMessage (extractImagesFromContent (msg_content message)) antigravityMessages)
      else if msg_role message = ''assistant'' then
        (case handleAssistantMessage message antigravityMessages of
           Inl e \<Rightarrow> Inl e
         | Inr antigravityMessages' \<Rightarrow> translate_loop rest antigravityMessages')
      else if msg_role message = ''tool'' then
        translate_loop rest
          (antigravityMessages @ [fakeUserToolMessage message antigravityMessages])
      else translate_loop rest antigravityMessages)"

definition openaiMessageToAntigravity :: "message list \<Rightarrow> js_error + turn list" where
  "openaiMessageToAntigravity openaiMessages = translate_loop openaiMessages []"

section \<open>Tool schema adapter (utils.js: convertOpenAIToolsToAntigravity)\<close>

text \<open>A JSON value; an object is the list of its keys and values in order.\<close>

datatype json =
    JNull
  | JBool bool
  | JNum real
  | JStr string
  | JArr "json list"
  | JObj "(string \<times> json) list"

text \<open>
  A client tool \<open>{type, function: {name, description?, parameters?}}\<close>. The parameters are
  optional in a client's tool declaration: an absent value is \<open>None\<close>.
\<close>

record tool_function =
  fn_name :: string
  fn_description :: "string option"
  fn_parameters :: "(string \<times> json) list option"

record tool =
  tool_type :: string
  tool_fn :: tool_function

record function_declaration =
  decl_name :: string
  decl_description :: "string option"
  decl_parameters :: "(string \<times> json) list"

record upstream_tool =
  functionDeclarations :: "function_declaration list"

text \<open>\<open>delete obj[key]\<close> on an object.\<close>

definition delete_key :: "string \<Rightarrow> (string \<times> json) list \<Rightarrow> (string \<times> json) list" where
  "delete_key k obj = filter (\<lambda>kv. fst kv \<noteq> k) obj"

text \<open>
  \<open>delete tool.function.parameters.$schema\<close> on a tool without parameters raises this
  \<open>TypeError\<close>.
\<close>

definition parameters_type_error :: js_error where
  "parameters_type_error =
     \<lparr>err_message = ''Cannot convert undefined or null to object'', err_status = None\<rparr>"

text \<open>
  The body of the \<open>map\<close> callback. The callback deletes \<open>$schema\<close> on the caller's tool object
  and then builds the declaration from it, so the function returns both: the declaration and
  the caller's tool as the callback leaves it. On a tool without parameters the deletion
  raises before anything is changed.
\<close>

definition convert_tool :: "tool \<Rightarrow> js_error + upstream_tool \<times> tool" where
  "convert_tool t =
     (case fn_parameters (tool_fn t) of
        None \<Rightarrow> Inl parameters_type_error
      | Some ps \<Rightarrow>
          (let t' = t\<lparr>tool_fn := (tool_fn t)\<lparr>fn_parameters := Some (delete_key ''$schema'' ps)\<rparr>\<rparr>
           in Inr (\<lparr>functionDeclarations =
                      [\<lparr>decl_name = fn_name (tool_fn t'),
                        decl_description = fn_description (tool_fn t'),
                        decl_parameters = delete_key ''$schema'' ps\<rparr>]\<rparr>,
                   t')))"

text \<open>
  \<open>openaiTools.map\<close> calls the callback on the tools in order. The result is the list of
  declarations, or the error of the first callback that raises; with it comes the caller's
  list as the call leaves it: when a callback raises, the tools before it have been changed
  and the tools from it on have not.
\<close>

fun convert_tools :: "tool list \<Rightarrow> (js_error + upstream_tool list) \<times> tool list" where
  "convert_tools [] = (Inr [], [])"
| "convert_tools (t # ts) =
     (case convert_tool t of
        Inl e \<Rightarrow> (Inl e, t # ts)
      | Inr (d, t') \<Rightarrow>
          (case convert_tools ts of
             (Inl e, ts') \<Rightarrow> (Inl e, t' # ts')
           | (Inr ds, ts') \<Rightarrow> (Inr (d # ds), t' # ts')))"

text \<open>
  The result and the caller's tool list after the call (\<open>None\<close> is an absent list).
\<close>

definition convertOpenAIToolsToAntigravity ::
  "tool list option \<Rightarrow> (js_error + upstream_tool list) \<times> tool list option" where
  "convertOpenAIToolsToAntigravity openaiTools =
     (case openaiTools of
        None \<Rightarrow> (Inr [], None)
      | Some ts \<Rightarrow>
          if length ts = 0 then (Inr [], Some ts)
          else (case convert_tools ts of (result, ts') \<Rightarrow> (result, Some ts')))"

section \<open>Generation config builder (utils.js: generateGenerationConfig)\<close>

text \<open>The sampling fields of the request body, and of \<open>config.defaults\<close>.\<close>

record sampling =
  top_p :: "real option"
  top_k :: "real option"
  temperature :: "real option"
  max_tokens :: "real option"

record thinking_config =
  includeThoughts :: bool
  thinkingBudget :: nat

text \<open>A field that an object literal leaves out, or that \<open>delete\<close> removed, is \<open>None\<close>.\<close>

record generation_config =
  topP :: "real option"
  topK :: "real option"
  gc_temperature :: "real option"
  candidateCount :: nat
  maxOutputTokens :: "real option"
  stopSequences :: "string list option"
  thinkingConfig :: "thinking_config option"

text \<open>The operator \<open>??\<close>.\<close>

definition nullish :: "'a option \<Rightarrow> 'a option \<Rightarrow> 'a option" where
  "nullish a b = (case a of Some v \<Rightarrow> Some v | None \<Rightarrow> b)"

definition generateGenerationConfig ::
  "sampling \<Rightarrow> sampling \<Rightarrow> bool \<Rightarrow> string \<Rightarrow> generation_config" where
  "generateGenerationConfig defaults parameters enableThinking actualModelName =
     (let generationConfig =
            \<lparr>topP = nullish (top_p parameters) (top_p defaults),
             topK = nullish (top_k parameters) (top_k defaults),
             gc_temperature = nullish (temperature parameters) (temperature defaults),
             candidateCount = 1,
             maxOutputTokens = nullish (max_tokens parameters) (max_tokens defaults),
             stopSequences =
               Some [''<|user|>'', ''<|bot|>'', ''<|context_request|>'', ''<|endoftext|>'',
                     ''<|end_of_turn|>''],
             thinkingConfig =
               Some \<lparr>includeThoughts = enableThinking,
                     thinkingBudget = (if enableThinking then 1024 else 0)\<rparr>\<rparr>
      in if enableThinking \<and> js_includes actualModelName ''claude''
         then generationConfig\<lparr>topP := None\<rparr>
         else generationConfig)"

section \<open>Request assembler (utils.js: generateRequestBody)\<close>

record config =
  cfg_defaults :: sampling
  cfg_systemInstruction :: "string option"

record token =
  projectId :: string
  tok_sessionId :: string

record system_instruction =
  si_role :: string
  si_text :: content

text \<open>
  The upstream request and its envelope. \<open>toolConfig\<close> holds the \<open>mode\<close> of its
  \<open>functionCallingConfig\<close>; a field removed by \<open>delete\<close> is \<open>None\<close>.
\<close>

record upstream_request =
  contents :: "turn list"
  systemInstruction :: "system_instruction option"
  tools :: "upstream_tool list option"
  toolConfig :: "string option"
  generationConfig :: generation_config
  sessionId :: string

record request_body =
  project :: string
  requestId :: string
  request :: upstream_request
  model :: string
  userAgent :: string
  requestType :: "string option"

text \<open>\<open>finalSystemInstruction || ''\<close>: an absent or empty instruction becomes the empty string.\<close>

definition instruction_or_empty :: "content \<Rightarrow> content" where
  "instruction_or_empty c = (case c of NoContent \<Rightarrow> TextContent [] | _ \<Rightarrow> c)"

text \<open>
  \<open>generateRequestBody\<close>, with the configuration and the fresh request id (the result of
  \<open>generateRequestId()\<close>) as arguments. The properties of the object literal are evaluated in
  order: the translation of the messages, which may raise, comes before the conversion of
  the tools, which may raise too. The result is the envelope or the error raised, and the
  caller's tool list as the call leaves it.
\<close>

definition generateRequestBody ::
  "config \<Rightarrow> string \<Rightarrow> message list \<Rightarrow> string \<Rightarrow> sampling \<Rightarrow> tool list option \<Rightarrow> token \<Rightarrow>
   (js_error + request_body) \<times> tool list option" where
  "generateRequestBody cfg freshId openaiMessages modelName parameters openaiTools tok =
     (let enableThinking = isEnableThinking modelName;
          actualModelName = modelMapping modelName;
          clientSystemMessage = find (\<lambda>msg. msg_role msg = ''system'') openaiMessages;
          finalSystemInstruction =
            (case clientSystemMessage of
               Some msg \<Rightarrow> msg_content msg
             | None \<Rightarrow> (case cfg_systemInstruction cfg of None \<Rightarrow> NoContent | Some s \<Rightarrow> TextContent s))
      in case openaiMessageToAntigravity openaiMessages of
           Inl e \<Rightarrow> (Inl e, openaiTools)
         | Inr turns \<Rightarrow>
             (case convertOpenAIToolsToAntigravity openaiTools of
                (Inl e, openaiTools') \<Rightarrow> (Inl e, openaiTools')
              | (Inr upstreamTools, openaiTools') \<Rightarrow>
                  (Inr \<lparr>project = projectId tok,
                        requestId = freshId,
                        request =
                          \<lparr>contents = turns,
                           systemInstruction =
                             Some \<lparr>si_role = ''user'',
                                   si_text = instruction_or_empty finalSystemInstruction\<rparr>,
                           tools = Some upstreamTools,
                           toolConfig = Some ''VALIDATED'',
                           generationConfig =
                             generateGenerationConfig (cfg_defaults cfg) parameters enableThinking
                               actualModelName,
                           sessionId = tok_sessionId tok\<rparr>,
                        model = actualModelName,
                        userAgent = ''antigravity'',
                        requestType = None\<rparr>,
                   openaiTools')))"

section \<open>HTTP surface (server: auth middleware and POST /v1/chat/completions)\<close>

subsection \<open>Responses and streamed chunks\<close>

datatype delta =
    DeltaEmpty
  | DeltaContent string
  | DeltaReasoning string
  | DeltaToolCalls "tool_call list"

text \<open>
  A stream chunk \<open>{id, object, created, model, choices: [{index: 0, delta, finish_reason}]}\<close>;
  the single choice is flattened into the record.
\<close>

record chunk =
  chunk_id :: string
  chunk_object :: string
  chunk_created :: nat
  chunk_model :: string
  chunk_delta :: delta
  finish_reason :: "string option"

record completion_message =
  cm_role :: string
  cm_content :: string
  cm_tool_calls :: "tool_call list option"
  cm_reasoning_content :: "string option"

record completion =
  cp_id :: string
  cp_object :: string
  cp_created :: nat
  cp_model :: string
  cp_message :: completion_message
  cp_finish_reason :: string

text \<open>The error object \<open>{message, type, param, code}\<close> under the key \<open>error\<close>.\<close>

record error_body =
  eb_message :: string
  eb_type :: string
  eb_param :: "string option"
  eb_code :: string

datatype payload =
    SimpleError string
  | ErrorResponse error_body
  | Completion completion

text \<open>
  What is written to the connection: a JSON body, one SSE event \<open>data: <chunk>\<close>, or the
  literal event \<open>data: [DONE]\<close>.
\<close>

datatype wire_output = JsonBody payload | SseData chunk | SseDone

record response =
  statusCode :: nat
  headers :: "(string \<times> string) list"
  headersSent :: bool
  written :: "wire_output list"
  ended :: bool

definition new_response :: response where
  "new_response = \<lparr>statusCode = 200, headers = [], headersSent = False, written = [], ended = False\<rparr>"

definition res_setHeader :: "string \<Rightarrow> string \<Rightarrow> response \<Rightarrow> response" where
  "res_setHeader k v res = res\<lparr>headers := filter (\<lambda>h. fst h \<noteq> k) (headers res) @ [(k, v)]\<rparr>"

text \<open>
  \<open>res.status\<close> sets the status code; for a code outside 100 to 999 it raises a
  \<open>RangeError\<close> and leaves the response as it is.
\<close>

definition invalid_status_error :: "nat \<Rightarrow> js_error" where
  "invalid_status_error code =
     \<lparr>err_message = ''Invalid status code: '' @ nat_to_string code @
                     ''. Status code must be greater than 99 and less than 1000.'',
      err_status = None\<rparr>"

definition res_status :: "nat \<Rightarrow> response \<Rightarrow> js_error + response" where
  "res_status code res =
     (if 100 \<le> code \<and> code \<le> 999 then Inr (res\<lparr>statusCode := code\<rparr>)
      else Inl (invalid_status_error code))"

text \<open>\<open>res.write\<close> sends the headers with the first data.\<close>

definition res_write :: "wire_output \<Rightarrow> response \<Rightarrow> response" where
  "res_write out res = res\<lparr>headersSent := True, written := written res @ [out]\<rparr>"

definition res_end :: "response \<Rightarrow> response" where
  "res_end res = res\<lparr>headersSent := True, ended := True\<rparr>"

text \<open>
  \<open>res.json\<close> sets the content type unless one is already set, sends the body and ends the
  response. The charset that \<open>res.send\<close> adds to the content type is left out.
\<close>

definition res_json :: "payload \<Rightarrow> response \<Rightarrow> response" where
  "res_json body res =
     res_end (res_write (JsonBody body)
       (if map_of (headers res) ''Content-Type'' = None
        then res_setHeader ''Content-Type'' ''application/json'' res
        else res))"

definition setStreamHeaders :: "response \<Rightarrow> response" where
  "setStreamHeaders res =
     res_setHeader ''Connection'' ''keep-alive''
       (res_setHeader ''Cache-Control'' ''no-cache''
          (res_setHeader ''Content-Type'' ''text/event-stream'' res))"

definition createStreamChunk :: "string \<Rightarrow> nat \<Rightarrow> string \<Rightarrow> delta \<Rightarrow> string option \<Rightarrow> chunk" where
  "createStreamChunk cid created mdl d fr =
     \<lparr>chunk_id = cid, chunk_object = ''chat.completion.chunk'', chunk_created = created,
      chunk_model = mdl, chunk_delta = d, finish_reason = fr\<rparr>"

definition writeStreamData :: "response \<Rightarrow> chunk \<Rightarrow> response" where
  "writeStreamData res c = res_write (SseData c) res"

definition endStream :: "response \<Rightarrow> string \<Rightarrow> nat \<Rightarrow> string \<Rightarrow> string \<Rightarrow> response" where
  "endStream res cid created mdl fr =
     res_end (res_write SseDone
       (writeStreamData res (createStreamChunk cid created mdl DeltaEmpty (Some fr))))"

subsection \<open>Auth middleware\<close>

datatype middleware_result = Next | Respond nat payload

text \<open>
  The middleware for the configured key \<open>config.security?.apiKey\<close>, the request path and the
  \<open>Authorization\<close> header.
\<close>

definition auth_middleware :: "string option \<Rightarrow> string \<Rightarrow> string option \<Rightarrow> middleware_result" where
  "auth_middleware apiKey path authHeader =
     (if js_startsWith path ''/v1/'' then
        (if truthy_string apiKey then
           (let providedKey =
                  (case authHeader of
                     None \<Rightarrow> None
                   | Some h \<Rightarrow> if js_startsWith h ''Bearer '' then Some (drop 7 h) else Some h)
            in if providedKey \<noteq> apiKey then Respond 401 (SimpleError ''Invalid API Key'')
               else Next)
         else Next)
      else Next)"

subsection \<open>The external collaborators\<close>

text \<open>
  An upstream event as the streaming callback reads it: its \<open>type\<close>, \<open>content\<close> and
  \<open>tool_calls\<close>.
\<close>

record event =
  ev_type :: string
  ev_content :: string
  ev_tool_calls :: "tool_call list"

record nostream_response =
  ns_content :: string
  ns_toolCalls :: "tool_call list"
  ns_reasoning_content :: "string option"

text \<open>
  The handler's environment: the configuration, what \<open>tokenManager.getToken()\<close> resolves to,
  the fresh request id, the two readings of the clock taken by \<open>createResponseMeta\<close>, and the
  two upstream invokers. The streaming invoker delivers events to the callback in order and
  then either completes or fails; the other returns a response or fails.
\<close>

record env =
  env_config :: config
  getToken :: "token option"
  generateRequestId :: string
  now_id :: nat
  now_created :: nat
  generateAssistantResponse :: "request_body \<Rightarrow> token \<Rightarrow> event list \<times> js_error option"
  generateAssistantResponseNoStream :: "request_body \<Rightarrow> token \<Rightarrow> js_error + nostream_response"

datatype ext_call = CallGetToken | CallGenerateAssistantResponse | CallGenerateAssistantResponseNoStream

text \<open>The destructured request body; the remaining fields are the sampling parameters.\<close>

record chat_request =
  messages :: "message list option"
  req_model :: "string option"
  stream :: bool
  req_tools :: "tool list option"
  params :: sampling

subsection \<open>POST /v1/chat/completions\<close>

definition no_token_error :: js_error where
  "no_token_error =
     \<lparr>err_message =
        [CHR 0xE6, CHR 0xB2, CHR 0xA1, CHR 0xE6, CHR 0x9C, CHR 0x89, CHR 0xE5, CHR 0x8F, CHR 0xAF, CHR 0xE7, CHR 0x94, CHR 0xA8, CHR 0xE7, CHR 0x9A, CHR 0x84] @
        ''token'' @
        [CHR 0xEF, CHR 0xBC, CHR 0x8C, CHR 0xE8, CHR 0xAF, CHR 0xB7, CHR 0xE8, CHR 0xBF, CHR 0x90, CHR 0xE8, CHR 0xA1, CHR 0x8C] @
        '' npm run login '' @
        [CHR 0xE8, CHR 0x8E, CHR 0xB7, CHR 0xE5, CHR 0x8F, CHR 0x96] @
        ''token'',
      err_status = None\<rparr>"

definition model_type_error :: js_error where
  "model_type_error =
     \<lparr>err_message = ''Cannot read properties of undefined (reading '' @ [CHR 0x27] @ ''includes'' @
                     [CHR 0x27] @ '')'',
      err_status = None\<rparr>"

text \<open>
  The catch block refers to \<open>id\<close> and \<open>created\<close>, which are declared inside the try block and
  are not in scope there.
\<close>

definition id_reference_error :: js_error where
  "id_reference_error = \<lparr>err_message = ''id is not defined'', err_status = None\<rparr>"

text \<open>
  \<open>createResponseMeta\<close> reads the clock twice: once for the id and once for the creation time
  in seconds.
\<close>

definition createResponseMeta :: "env \<Rightarrow> string \<times> nat" where
  "createResponseMeta e = (''chatcmpl-'' @ nat_to_string (now_id e), now_created e div 1000)"

text \<open>The overrides for a model whose name contains \<open>-image\<close>.\<close>

definition image_overrides :: "request_body \<Rightarrow> request_body" where
  "image_overrides requestBody =
     requestBody
       \<lparr>request :=
          (request requestBody)
            \<lparr>generationConfig :=
               \<lparr>topP = None, topK = None, gc_temperature = None, candidateCount = 1,
                maxOutputTokens = None, stopSequences = None, thinkingConfig = None\<rparr>,
             systemInstruction := None,
             tools := None,
             toolConfig := None\<rparr>,
        requestType := Some ''image_gen''\<rparr>"

text \<open>The streaming callback: the response and the flag \<open>hasToolCall\<close> before and after one event.\<close>

definition stream_callback ::
  "string \<Rightarrow> nat \<Rightarrow> string \<Rightarrow> response \<times> bool \<Rightarrow> event \<Rightarrow> response \<times> bool" where
  "stream_callback cid created mdl st data =
     (let res = fst st; hasToolCall = snd st;
          d = (if ev_type data = ''tool_calls'' then DeltaToolCalls (ev_tool_calls data)
               else if ev_type data = ''thinking'' then DeltaReasoning (ev_content data)
               else DeltaContent (ev_content data));
          hasToolCall' = (if ev_type data = ''tool_calls'' then True else hasToolCall)
      in (writeStreamData res (createStreamChunk cid created mdl d None), hasToolCall'))"

text \<open>
  The try block yields the response, the calls made to the external collaborators, and the
  error raised, if any. An error leaves the response as it was when the error was raised.
  Calls to the logger are left out: they do not touch the response.
  The three ways of answering are given first: streaming for an image model, streaming for
  any other model, and the single JSON answer.
\<close>

definition stream_image_branch ::
  "env \<Rightarrow> request_body \<Rightarrow> token \<Rightarrow> string \<Rightarrow> nat \<Rightarrow> string \<Rightarrow> response \<Rightarrow>
   response \<times> ext_call list \<times> js_error option" where
  "stream_image_branch e requestBody tok cid created mdl res =
     (case generateAssistantResponseNoStream e requestBody tok of
        Inl err \<Rightarrow> (res, [CallGetToken, CallGenerateAssistantResponseNoStream], Some err)
      | Inr r \<Rightarrow>
          (endStream
             (writeStreamData res
                (createStreamChunk cid created mdl (DeltaContent (ns_content r)) None))
             cid created mdl ''stop'',
           [CallGetToken, CallGenerateAssistantResponseNoStream], None))"

definition stream_events_branch ::
  "env \<Rightarrow> request_body \<Rightarrow> token \<Rightarrow> string \<Rightarrow> nat \<Rightarrow> string \<Rightarrow> response \<Rightarrow>
   response \<times> ext_call list \<times> js_error option" where
  "stream_events_branch e requestBody tok cid created mdl res =
     (case generateAssistantResponse e requestBody tok of
        (events, failure) \<Rightarrow>
          (let st = foldl (stream_callback cid created mdl) (res, False) events
           in case failure of
                Some err \<Rightarrow> (fst st, [CallGetToken, CallGenerateAssistantResponse], Some err)
              | None \<Rightarrow>
                  (endStream (fst st) cid created mdl (if snd st then ''tool_calls'' else ''stop''),
                   [CallGetToken, CallGenerateAssistantResponse], None)))"

definition json_branch ::
  "env \<Rightarrow> request_body \<Rightarrow> token \<Rightarrow> string \<Rightarrow> nat \<Rightarrow> string \<Rightarrow> response \<Rightarrow>
   response \<times> ext_call list \<times> js_error option" where
  "json_branch e requestBody tok cid created mdl res =
     (case generateAssistantResponseNoStream e requestBody tok of
        Inl err \<Rightarrow> (res, [CallGetToken, CallGenerateAssistantResponseNoStream], Some err)
      | Inr r \<Rightarrow>
          (res_json
             (Completion
                \<lparr>cp_id = cid, cp_object = ''chat.completion'', cp_created = created,
                 cp_model = mdl,
                 cp_message =
                   \<lparr>cm_role = ''assistant'', cm_content = ns_content r,
                    cm_tool_calls =
                      (if length (ns_toolCalls r) > 0 then Some (ns_toolCalls r) else None),
                    cm_reasoning_content =
                      (if truthy_string (ns_reasoning_content r) then ns_reasoning_content r
                       else None)\<rparr>,
                 cp_finish_reason =
                   (if length (ns_toolCalls r) > 0 then ''tool_calls'' else ''stop'')\<rparr>)
             res,
           [CallGetToken, CallGenerateAssistantResponseNoStream], None))"

definition try_block ::
  "env \<Rightarrow> chat_request \<Rightarrow> response \<Rightarrow> response \<times> ext_call list \<times> js_error option" where
  "try_block e body res =
     (case messages body of
        None \<Rightarrow>
          (case res_status 400 res of
             Inl err \<Rightarrow> (res, [], Some err)
           | Inr res' \<Rightarrow> (res_json (SimpleError ''messages is required'') res', [], None))
      | Some msgs \<Rightarrow>
          (case getToken e of
             None \<Rightarrow> (res, [CallGetToken], Some no_token_error)
           | Some tok \<Rightarrow>
               (case req_model body of
                  None \<Rightarrow> (res, [CallGetToken], Some model_type_error)
                | Some mdl \<Rightarrow>
                    (let isImageModel = js_includes mdl ''-image''
                     in case generateRequestBody (env_config e) (generateRequestId e) msgs mdl
                               (params body) (req_tools body) tok of
                          (Inl err, openaiTools') \<Rightarrow> (res, [CallGetToken], Some err)
                        | (Inr requestBody0, openaiTools') \<Rightarrow>
                            (let requestBody = (if isImageModel then image_overrides requestBody0
                                                else requestBody0);
                                 cid = fst (createResponseMeta e);
                                 created = snd (createResponseMeta e)
                             in if stream body then
                                  (let res1 = setStreamHeaders res
                                   in if isImageModel
                                      then stream_image_branch e requestBody tok cid created mdl res1
                                      else stream_events_branch e requestBody tok cid created mdl res1)
                                else json_branch e requestBody tok cid created mdl res)))))"

text \<open>The status the catch block computes from the error.\<close>

definition error_status :: "js_error \<Rightarrow> nat" where
  "error_status error =
     (if js_includes (err_message error) ''429'' \<or> js_includes (err_message error) ''capacity'' \<or>
         js_includes (err_message error) ''RESOURCE_EXHAUSTED''
      then 429
      else (case err_status error of
              Some s \<Rightarrow> if s \<noteq> 0 then s else 500
            | None \<Rightarrow> 500))"

definition errorResponse :: "js_error \<Rightarrow> payload" where
  "errorResponse error =
     ErrorResponse
       \<lparr>eb_message = (if err_message error \<noteq> [] then err_message error
                      else ''Internal Server Error''),
        eb_type = ''server_error'',
        eb_param = None,
        eb_code = (if error_status error = 429 then ''rate_limit_exceeded'' else ''internal_error'')\<rparr>"

text \<open>
  \<open>res.status(status).json(errorResponse)\<close> in the catch block: an error raised here is not
  caught by anything in the handler.
\<close>

definition respond_error :: "js_error \<Rightarrow> nat \<Rightarrow> response \<Rightarrow> response \<times> js_error option" where
  "respond_error error status res =
     (case res_status status res of
        Inl raised \<Rightarrow> (res, Some raised)
      | Inr res' \<Rightarrow> (res_json (errorResponse error) res', None))"

text \<open>
  The catch block: the response, and the error that escapes the handler, if any. The two
  tests of \<open>res.headersSent\<close> are kept as the code nests them.
\<close>

definition catch_block :: "js_error \<Rightarrow> bool \<Rightarrow> response \<Rightarrow> response \<times> js_error option" where
  "catch_block error strm res =
     (if \<not> headersSent res then
        (let status = error_status error
         in if strm then
              (if \<not> headersSent res
               then respond_error error status res
               else (res, Some id_reference_error))
            else respond_error error status res)
      else (res, None))"

definition chat_completions ::
  "env \<Rightarrow> chat_request \<Rightarrow> response \<Rightarrow> response \<times> ext_call list \<times> js_error option" where
  "chat_completions e body res =
     (case try_block e body res of
        (res', calls, None) \<Rightarrow> (res', calls, None)
      | (res', calls, Some error) \<Rightarrow>
          (case catch_block error (stream body) res' of
             (res'', escaped) \<Rightarrow> (res'', calls, escaped)))"

section \<open>The properties, stated over the model\<close>

subsection \<open>Tool-name resolution in the words of the specification\<close>

text \<open>
  The specification resolves the function name of a tool message by scanning the prior
  \<open>model\<close> turns backward for a function-call part whose identifier equals the message's
  \<open>tool_call_id\<close>. \<open>call_names\<close> lists the names of the matching calls of one turn in part
  order; \<open>spec_matching_calls\<close> concatenates them over the \<open>model\<close> turns, most recent turn
  first, so its head is the first match of the backward scan. The message's own name wins
  when it is present; a name counts as present when it is truthy, that is, not empty.
\<close>

fun call_names :: "string option \<Rightarrow> part list \<Rightarrow> string list" where
  "call_names tid [] = []"
| "call_names tid (FunctionCall cid nm # ps) =
     (if cid = tid then nm # call_names tid ps else call_names tid ps)"
| "call_names tid (p # ps) = call_names tid ps"

definition spec_matching_calls :: "string option \<Rightarrow> turn list \<Rightarrow> string list" where
  "spec_matching_calls tid turns =
     concat (map (\<lambda>t. call_names tid (parts t)) (filter (\<lambda>t. role t = ''model'') (rev turns)))"

definition spec_first_match :: "string option \<Rightarrow> turn list \<Rightarrow> string" where
  "spec_first_match tid turns =
     (case spec_matching_calls tid turns of [] \<Rightarrow> ''unknown_tool'' | nm # rest \<Rightarrow> nm)"

definition spec_function_name :: "message \<Rightarrow> turn list \<Rightarrow> string" where
  "spec_function_name m turns =
     (case msg_name m of
        Some n \<Rightarrow> if n \<noteq> [] then n else spec_first_match (tool_call_id m) turns
      | None \<Rightarrow> spec_first_match (tool_call_id m) turns)"

text \<open>
  Two predicates on an accumulated turn list: every function-call part has a non-empty name,
  and there is no function-call part at all.
\<close>

fun call_named :: "part \<Rightarrow> bool" where
  "call_named (FunctionCall cid nm) = (nm \<noteq> [])"
| "call_named p = True"

definition calls_named :: "turn list \<Rightarrow> bool" where
  "calls_named turns = list_all (\<lambda>t. list_all call_named (parts t)) turns"

fun is_call :: "part \<Rightarrow> bool" where
  "is_call (FunctionCall cid nm) = True"
| "is_call p = False"

definition no_calls :: "turn list \<Rightarrow> bool" where
  "no_calls turns = list_all (\<lambda>t. list_all (\<lambda>p. \<not> is_call p) (parts t)) turns"

subsection \<open>Turn order\<close>

text \<open>
  The messages that contribute a turn, the role of the turn, and the one shape of message on
  which \<open>handleAssistantMessage\<close> raises: an assistant message whose content is an array and
  that has no tool calls.
\<close>

definition contributes :: "message \<Rightarrow> bool" where
  "contributes m = (msg_role m = ''user'' \<or> msg_role m = ''assistant'' \<or> msg_role m = ''tool'')"

definition turn_role_of :: "message \<Rightarrow> string" where
  "turn_role_of m = (if msg_role m = ''assistant'' then ''model'' else ''user'')"

definition array_without_calls :: "message \<Rightarrow> bool" where
  "array_without_calls m =
     (msg_role m = ''assistant'' \<and>
      (case msg_content m of ArrayContent xs \<Rightarrow> True | _ \<Rightarrow> False) \<and>
      (case tool_calls m of None \<Rightarrow> True | Some tcs \<Rightarrow> tcs = []))"

definition user_turn :: "message \<Rightarrow> turn" where
  "user_turn m =
     \<lparr>role = ''user'',
      parts = TextPart (ex_text (extractImagesFromContent (msg_content m))) #
              ex_images (extractImagesFromContent (msg_content m))\<rparr>"

subsection \<open>The text of an assistant turn\<close>

text \<open>
  \<open>occurs_in_order ps t\<close>: the strings \<open>ps\<close> occur in \<open>t\<close> one after the other, without
  overlap, in the order of the list. For two strings this is
  \<open>\<exists>x y z. t = x @ a @ y @ b @ z\<close> (lemma \<open>occurs_two\<close>).
\<close>

fun occurs_in_order :: "string list \<Rightarrow> string \<Rightarrow> bool" where
  "occurs_in_order [] t = True"
| "occurs_in_order (p # ps) t =
     list_ex (\<lambda>i. prefix p (drop i t) \<and> occurs_in_order ps (drop (i + length p) t))
       [0..<Suc (length t)]"

text \<open>
  The text of the turn for string content \<open>c\<close> and tool calls \<open>tcs\<close>; \<open>ws_byte\<close> bounds the
  bytes a blank string can hold.
\<close>

definition assistant_text :: "string \<Rightarrow> tool_call list \<Rightarrow> string" where
  "assistant_text c tcs =
     (if tcs = [] then (if js_blank c then ''...'' else c)
      else if c = [] then js_join newline (map tool_note tcs)
      else c @ newline @ js_join newline (map tool_note tcs))"

definition ws_byte :: "char \<Rightarrow> bool" where
  "ws_byte c = (let n = (of_char c :: nat) in n < 48 \<or> 128 \<le> n)"

subsection \<open>Stream deltas and error markers\<close>

definition spec_delta :: "event \<Rightarrow> delta" where
  "spec_delta ev =
     (if ev_type ev = ''thinking'' then DeltaReasoning (ev_content ev)
      else if ev_type ev = ''tool_calls'' then DeltaToolCalls (ev_tool_calls ev)
      else DeltaContent (ev_content ev))"

definition spec_finish_reason :: "event list \<Rightarrow> string" where
  "spec_finish_reason events =
     (if list_ex (\<lambda>ev. ev_type ev = ''tool_calls'') events then ''tool_calls'' else ''stop'')"

definition has_rate_limit_marker :: "string \<Rightarrow> bool" where
  "has_rate_limit_marker msg =
     list_ex (\<lambda>marker. sublist marker msg) [''429'', ''capacity'', ''RESOURCE_EXHAUSTED'']"


subsection \<open>Tool declarations\<close>

text \<open>
  A tool with parameters and the parameters themselves; a tool without the key \<open>$schema\<close> in
  its parameters; and the upstream declaration built from a tool.
\<close>

definition has_parameters :: "tool \<Rightarrow> bool" where
  "has_parameters t = (fn_parameters (tool_fn t) \<noteq> None)"

definition parameters_of :: "tool \<Rightarrow> (string \<times> json) list" where
  "parameters_of t = (case fn_parameters (tool_fn t) of None \<Rightarrow> [] | Some ps \<Rightarrow> ps)"

definition strip_schema :: "tool \<Rightarrow> tool" where
  "strip_schema t =
     t\<lparr>tool_fn := (tool_fn t)\<lparr>fn_parameters :=
          map_option (filter (\<lambda>kv. fst kv \<noteq> ''$schema'')) (fn_parameters (tool_fn t))\<rparr>\<rparr>"

definition declaration_of :: "tool \<Rightarrow> upstream_tool" where
  "declaration_of t =
     \<lparr>functionDeclarations =
        [\<lparr>decl_name = fn_name (tool_fn t), decl_description = fn_description (tool_fn t),
          decl_parameters = parameters_of t\<rparr>]\<rparr>"

subsection \<open>The key an Authorization header provides\<close>

definition spec_provided_key :: "string option \<Rightarrow> string option" where
  "spec_provided_key authHeader =
     (case authHeader of
        None \<Rightarrow> None
      | Some h \<Rightarrow> Some (if prefix ''Bearer '' h then drop (length ''Bearer '') h else h))"

definition invalid_key_response :: middleware_result where
  "invalid_key_response = Respond 401 (SimpleError ''Invalid API Key'')"

section \<open>Example requests\<close>

text \<open>
  Concrete messages, tools, events and environments at which the theorems below are
  instantiated.
\<close>

definition example_call :: tool_call where
  "example_call = \<lparr>tc_id = ''call_1'', tc_name = ''f'', tc_arguments = ''{}''\<rparr>"

definition example_call_turn :: turn where
  "example_call_turn = \<lparr>role = ''model'', parts = [FunctionCall (Some ''call_1'') ''get_weather'']\<rparr>"

definition example_tool_message :: message where
  "example_tool_message =
     \<lparr>msg_role = ''tool'', msg_content = TextContent ''sunny'', tool_calls = None,
      tool_call_id = Some ''call_1'', msg_name = None\<rparr>"

definition example_assistant_message :: message where
  "example_assistant_message =
     \<lparr>msg_role = ''assistant'', msg_content = TextContent ''hi'',
      tool_calls = Some [\<lparr>tc_id = ''call_1'', tc_name = ''f'', tc_arguments = ''{}''\<rparr>],
      tool_call_id = None, msg_name = None\<rparr>"

definition example_array_assistant :: message where
  "example_array_assistant =
     \<lparr>msg_role = ''assistant'', msg_content = ArrayContent [TextItem ''hi''],
      tool_calls = None, tool_call_id = None, msg_name = None\<rparr>"

definition example_user_message :: message where
  "example_user_message =
     \<lparr>msg_role = ''user'', msg_content = TextContent ''question'', tool_calls = None,
      tool_call_id = None, msg_name = None\<rparr>"

definition example_text :: string where
  "example_text = ''hi'' @ newline @ tool_note example_call"

definition example_tool :: tool where
  "example_tool =
     \<lparr>tool_type = ''function'',
      tool_fn =
        \<lparr>fn_name = ''get_weather'', fn_description = Some ''Weather for a city'',
         fn_parameters =
           Some [(''$schema'', JStr ''http://json-schema.org/draft-07/schema#''),
                 (''type'', JStr ''object''),
                 (''properties'', JObj [(''city'', JObj [(''type'', JStr ''string'')])])]\<rparr>\<rparr>"

definition example_stripped_tool :: tool where
  "example_stripped_tool =
     \<lparr>tool_type = ''function'',
      tool_fn =
        \<lparr>fn_name = ''get_weather'', fn_description = Some ''Weather for a city'',
         fn_parameters =
           Some [(''type'', JStr ''object''),
                 (''properties'', JObj [(''city'', JObj [(''type'', JStr ''string'')])])]\<rparr>\<rparr>"

definition example_bare_tool :: tool where
  "example_bare_tool =
     \<lparr>tool_type = ''function'',
      tool_fn = \<lparr>fn_name = ''ping'', fn_description = None, fn_parameters = None\<rparr>\<rparr>"

definition example_sampling :: sampling where
  "example_sampling = \<lparr>top_p = None, top_k = None, temperature = None, max_tokens = None\<rparr>"

definition example_env :: "event list \<Rightarrow> js_error option \<Rightarrow> env" where
  "example_env events failure =
     \<lparr>env_config = \<lparr>cfg_defaults = example_sampling, cfg_systemInstruction = None\<rparr>,
      getToken = Some \<lparr>projectId = ''p'', tok_sessionId = ''s''\<rparr>,
      generateRequestId = ''r'',
      now_id = 5,
      now_created = 5000,
      generateAssistantResponse = (\<lambda>requestBody tok. (events, failure)),
      generateAssistantResponseNoStream =
        (\<lambda>requestBody tok. Inl \<lparr>err_message = ''not used'', err_status = None\<rparr>)\<rparr>"

definition example_stream_request :: chat_request where
  "example_stream_request =
     \<lparr>messages = Some [example_user_message], req_model = Some ''gemini-2.5-flash'',
      stream = True, req_tools = None, params = example_sampling\<rparr>"

definition example_no_messages :: chat_request where
  "example_no_messages =
     \<lparr>messages = None, req_model = Some ''gemini-2.5-flash'', stream = False, req_tools = None,
      params = example_sampling\<rparr>"

definition example_events :: "event list" where
  "example_events =
     [\<lparr>ev_type = ''thinking'', ev_content = ''a'', ev_tool_calls = []\<rparr>,
      \<lparr>ev_type = ''text'', ev_content = ''b'', ev_tool_calls = []\<rparr>,
      \<lparr>ev_type = ''tool_calls'', ev_content = [], ev_tool_calls = [example_call]\<rparr>]"

definition example_partial_events :: "event list" where
  "example_partial_events = [\<lparr>ev_type = ''text'', ev_content = ''partial'', ev_tool_calls = []\<rparr>]"


definition example_upstream_error :: js_error where
  "example_upstream_error = \<lparr>err_message = ''socket hang up'', err_status = None\<rparr>"

section \<open>Verification\<close>

subsection \<open>Model policy\<close>

text \<open>
  Claim C6. Alias resolution is a total function of the model name alone:
  \<open>claude-sonnet-4-5-thinking\<close> resolves to \<open>claude-sonnet-4-5\<close>, \<open>claude-opus-4-5\<close> resolves to
  \<open>claude-opus-4-5-thinking\<close> (the asymmetric pair), \<open>gemini-2.5-flash-thinking\<close> resolves to
  \<open>gemini-2.5-flash\<close>, and every name other than these three resolves to itself.
\<close>

theorem modelMapping_table:
  "modelMapping ''claude-sonnet-4-5-thinking'' = ''claude-sonnet-4-5'' \<and>
   modelMapping ''claude-opus-4-5'' = ''claude-opus-4-5-thinking'' \<and>
   modelMapping ''gemini-2.5-flash-thinking'' = ''gemini-2.5-flash'' \<and>
   (\<forall>n. n \<noteq> ''claude-sonnet-4-5-thinking'' \<and> n \<noteq> ''claude-opus-4-5'' \<and>
        n \<noteq> ''gemini-2.5-flash-thinking'' \<longrightarrow> modelMapping n = n)"
  by (simp add: modelMapping_def)

text \<open>
The identity fallback at \<open>unknown-model\<close>, and the asymmetric entry.
\<close>

theorem modelMapping_table_witness:
  "''unknown-model'' \<noteq> ''claude-sonnet-4-5-thinking'' \<and>
   ''unknown-model'' \<noteq> ''claude-opus-4-5'' \<and>
   ''unknown-model'' \<noteq> ''gemini-2.5-flash-thinking'' \<and>
   modelMapping ''unknown-model'' = ''unknown-model'' \<and>
   modelMapping ''claude-opus-4-5'' = ''claude-opus-4-5-thinking''"
  using modelMapping_table by simp

subsection \<open>Assistant messages\<close>

text \<open>
  A note starts with an opening bracket, which is no white space: text that holds a note is
  never blank, so with tool calls the placeholder is never used.
\<close>

lemma ws1_byte: "ws1 a \<Longrightarrow> ws_byte a"
  by (auto simp: ws1_def ws_byte_def Let_def)

lemma ws2_byte: "ws2 a b \<Longrightarrow> ws_byte a \<and> ws_byte b"
  by (auto simp: ws2_def ws_byte_def Let_def)

lemma ws3_byte: "ws3 a b c \<Longrightarrow> ws_byte a \<and> ws_byte b \<and> ws_byte c"
  by (auto simp: ws3_def ws_byte_def Let_def)

lemma js_blank_bytes: "js_blank s \<Longrightarrow> list_all ws_byte s"
  by (induction s rule: js_blank.induct)
     (auto split: if_splits dest: ws1_byte ws2_byte ws3_byte)

lemma bracket_not_blank: "CHR ''['' \<in> set s \<Longrightarrow> \<not> js_blank s"
proof
  assume "CHR ''['' \<in> set s" and "js_blank s"
  then have "ws_byte CHR ''[''" using js_blank_bytes[of s] by (auto simp: list_all_iff)
  then show False by (simp add: ws_byte_def)
qed

lemma tool_note_bracket: "CHR ''['' \<in> set (tool_note tc)"
  by (simp add: tool_note_def)

lemma js_join_bracket: "tcs \<noteq> [] \<Longrightarrow> CHR ''['' \<in> set (js_join sep (map tool_note tcs))"
proof (cases tcs)
  case Nil
  assume "tcs \<noteq> []"
  with Nil show ?thesis by simp
next
  case (Cons tc rest)
  then show ?thesis by (cases rest) (simp_all add: tool_note_bracket)
qed

lemma handleAssistantMessage_text:
  assumes "content_or_empty (msg_content m) = JsString c"
  shows "handleAssistantMessage m acc =
           Inr (acc @ [\<lparr>role = ''model'',
                        parts = [TextPart (assistant_text c
                                   (case tool_calls m of None \<Rightarrow> [] | Some tcs \<Rightarrow> tcs))]\<rparr>])"
proof -
  let ?tcs = "case tool_calls m of None \<Rightarrow> [] | Some tcs \<Rightarrow> tcs"
  show ?thesis
  proof (cases "?tcs = []")
    case True
    with assms show ?thesis
      by (auto simp: handleAssistantMessage_def Let_def assistant_text_def)
  next
    case False
    then have br: "CHR ''['' \<in> set (js_join newline (map tool_note ?tcs))"
      by (rule js_join_bracket)
    then have nb1: "\<not> js_blank (js_join newline (map tool_note ?tcs))"
      by (rule bracket_not_blank)
    from br have nb2: "\<not> js_blank (c @ newline @ js_join newline (map tool_note ?tcs))"
      by (intro bracket_not_blank) simp
    from br have ne: "js_join newline (map tool_note ?tcs) \<noteq> []" by auto
    from False assms nb1 nb2 ne show ?thesis
      by (simp add: handleAssistantMessage_def Let_def assistant_text_def)
  qed
qed

lemma assistant_text_nonempty: "assistant_text c tcs \<noteq> []"
proof (cases "tcs = []")
  case True
  then show ?thesis by (cases c) (simp_all add: assistant_text_def)
next
  case False
  then have "CHR ''['' \<in> set (js_join newline (map tool_note tcs))" by (rule js_join_bracket)
  then have "js_join newline (map tool_note tcs) \<noteq> []" by auto
  with False show ?thesis by (simp add: assistant_text_def)
qed

lemma occurs_in_order_here:
  "occurs_in_order ps rest \<Longrightarrow> occurs_in_order (p # ps) (a @ p @ rest)"
proof -
  assume r: "occurs_in_order ps rest"
  have "length a \<in> set [0..<Suc (length (a @ p @ rest))]" by simp
  moreover have "prefix p (drop (length a) (a @ p @ rest))" by simp
  moreover have "occurs_in_order ps (drop (length a + length p) (a @ p @ rest))"
    using r by simp
  ultimately show ?thesis
    unfolding occurs_in_order.simps list_ex_iff by blast
qed

lemma occurs_in_order_later:
  "occurs_in_order ps t \<Longrightarrow> occurs_in_order ps (a @ t)"
proof (cases ps)
  case Nil
  then show ?thesis by simp
next
  case (Cons p ps')
  assume "occurs_in_order ps t"
  with Cons have "\<exists>i\<in>set [0..<Suc (length t)].
      prefix p (drop i t) \<and> occurs_in_order ps' (drop (i + length p) t)"
    by (simp only: occurs_in_order.simps list_ex_iff)
  then obtain i where i0: "i \<in> set [0..<Suc (length t)]" and i23: "prefix p (drop i t)"
      "occurs_in_order ps' (drop (i + length p) t)"
    by blast
  from i0 have i1: "i < Suc (length t)"
    by (simp only: set_upt atLeastLessThan_iff)
  note i = i1 i23
  have "length a + i \<in> set [0..<Suc (length (a @ t))]" using i(1)
    by (simp only: set_upt atLeastLessThan_iff length_append, arith)
  moreover have "prefix p (drop (length a + i) (a @ t))" using i(2) by simp
  moreover have "occurs_in_order ps' (drop (length a + i + length p) (a @ t))"
    using i(3) by (simp add: add.assoc)
  ultimately show ?thesis
    unfolding Cons occurs_in_order.simps list_ex_iff by blast
qed

lemma occurs_in_join: "occurs_in_order xs (js_join sep xs)"
proof (induction sep xs rule: js_join.induct)
  case (1 sep)
  then show ?case by simp
next
  case (2 sep x)
  have "occurs_in_order [x] ([] @ x @ [])" by (rule occurs_in_order_here) simp
  then show ?case by simp
next
  case (3 sep x y ys)
  have "occurs_in_order (y # ys) (sep @ js_join sep (y # ys))"
    using 3 by (rule occurs_in_order_later)
  then have "occurs_in_order (x # y # ys) ([] @ x @ sep @ js_join sep (y # ys))"
    by (rule occurs_in_order_here)
  then show ?case by simp
qed

lemma content_then_notes:
  "occurs_in_order (c # map tool_note tcs) (c @ newline @ js_join newline (map tool_note tcs))"
proof -
  have "occurs_in_order (map tool_note tcs) (newline @ js_join newline (map tool_note tcs))"
    using occurs_in_join by (rule occurs_in_order_later)
  then have "occurs_in_order (c # map tool_note tcs)
               ([] @ c @ newline @ js_join newline (map tool_note tcs))"
    by (rule occurs_in_order_here)
  then show ?thesis by simp
qed

lemma occurs_two:
  "occurs_in_order [a, b] t \<longleftrightarrow> (\<exists>x y z. t = x @ a @ y @ b @ z)"
proof
  assume "occurs_in_order [a, b] t"
  then have "\<exists>i\<in>set [0..<Suc (length t)]. prefix a (drop i t) \<and>
      (\<exists>j\<in>set [0..<Suc (length (drop (i + length a) t))].
         prefix b (drop j (drop (i + length a) t)) \<and> True)"
    by (simp only: occurs_in_order.simps list_ex_iff)
  then obtain i j where i: "prefix a (drop i t)"
    and j: "prefix b (drop j (drop (i + length a) t))"
    by blast
  from i obtain r where r: "drop i t = a @ r" by (auto simp: prefix_def)
  then have dr: "drop (i + length a) t = r"
    by (metis add.commute append_eq_conv_conj drop_drop)
  from j dr obtain z where z: "drop j r = b @ z" by (auto simp: prefix_def)
  have "t = take i t @ a @ take j r @ b @ z"
    by (metis append_take_drop_id r z)
  then show "\<exists>x y z. t = x @ a @ y @ b @ z" by blast
next
  assume "\<exists>x y z. t = x @ a @ y @ b @ z"
  then obtain x y z where t: "t = x @ a @ y @ b @ z" by blast
  have "occurs_in_order [b] (y @ b @ z)" by (rule occurs_in_order_here) simp
  then show "occurs_in_order [a, b] t" unfolding t by (rule occurs_in_order_here)
qed

lemma example_assistant_turn:
  "handleAssistantMessage example_assistant_message [] =
     Inr [\<lparr>role = ''model'', parts = [TextPart example_text]\<rparr>]"
proof -
  have "content_or_empty (msg_content example_assistant_message) = JsString ''hi''"
    by (simp add: example_assistant_message_def content_or_empty_def)
  from handleAssistantMessage_text[OF this, of "[]"] show ?thesis
    by (simp add: example_assistant_message_def assistant_text_def example_text_def
        example_call_def)
qed

lemma example_text_value:
  "example_text = ''hi'' @ [CHR 0x0A] @ ''[System Note: Model requested tool '' @ [CHR 0x27] @ ''f'' @
     [CHR 0x27] @ '' with args: {}]''"
  by (simp add: example_text_def newline_def tool_note_def example_call_def)

lemma example_note_value:
  "tool_note example_call = ''[System Note: Model requested tool '' @ [CHR 0x27] @ ''f'' @
     [CHR 0x27] @ '' with args: {}]''"
  by (simp add: tool_note_def example_call_def)

lemma example_not_note_first: "\<not> occurs_in_order [tool_note example_call, ''hi''] example_text"
  unfolding example_text_value example_note_value
  by code_simp

text \<open>
  The claim as the specification states it lists the notes before the original content. For
  the content \<open>hi\<close> and one tool call the text is the content, a newline and the note: the
  note followed by the content does not occur in it.
\<close>

theorem assistant_note_order_counterexample:
  "handleAssistantMessage example_assistant_message [] =
     Inr [\<lparr>role = ''model'', parts = [TextPart example_text]\<rparr>] \<and>
   \<not> occurs_in_order (map tool_note [example_call] @ [''hi'']) example_text"
  using example_assistant_turn example_not_note_first by simp

text \<open>
  Claim C5, amended. For an assistant message whose content is a string \<open>c\<close> (or absent, then
  \<open>c\<close> is empty) and whose tool calls are \<open>tcs\<close>, the translator appends exactly one new
  \<open>model\<close> turn with a single non-empty text part. With at least one tool call and non-empty
  content the text is the content, a newline, and the notes of the tool calls joined by
  newlines: the original content and then a note for each tool call, in that order. With
  tool calls and empty content the text is the joined notes. Without tool calls the text is
  the content, or the placeholder \<open>...\<close> when the content is empty or only white space, so
  the parts are never empty.
\<close>

theorem assistant_message_turn:
  "content_or_empty (msg_content m) = JsString c \<and>
   (case tool_calls m of None \<Rightarrow> [] | Some xs \<Rightarrow> xs) = tcs \<longrightarrow>
     (\<exists>t. t \<noteq> [] \<and>
          handleAssistantMessage m acc = Inr (acc @ [\<lparr>role = ''model'', parts = [TextPart t]\<rparr>])) \<and>
     (tcs \<noteq> [] \<and> c \<noteq> [] \<longrightarrow>
        handleAssistantMessage m acc =
          Inr (acc @ [\<lparr>role = ''model'',
                       parts = [TextPart (c @ newline @ js_join newline (map tool_note tcs))]\<rparr>]) \<and>
        occurs_in_order (c # map tool_note tcs)
          (c @ newline @ js_join newline (map tool_note tcs))) \<and>
     (tcs \<noteq> [] \<and> c = [] \<longrightarrow>
        handleAssistantMessage m acc =
          Inr (acc @ [\<lparr>role = ''model'',
                       parts = [TextPart (js_join newline (map tool_note tcs))]\<rparr>])) \<and>
     (tcs = [] \<longrightarrow>
        handleAssistantMessage m acc =
          Inr (acc @ [\<lparr>role = ''model'',
                       parts = [TextPart (if js_blank c then ''...'' else c)]\<rparr>]))"
proof (intro impI, elim conjE)
  assume c: "content_or_empty (msg_content m) = JsString c"
    and tcs: "(case tool_calls m of None \<Rightarrow> [] | Some xs \<Rightarrow> xs) = tcs"
  have h: "handleAssistantMessage m acc =
      Inr (acc @ [\<lparr>role = ''model'', parts = [TextPart (assistant_text c tcs)]\<rparr>])"
    unfolding tcs[symmetric] using c by (rule handleAssistantMessage_text)
  have ne: "assistant_text c tcs \<noteq> []" by (rule assistant_text_nonempty)
  show "(\<exists>t. t \<noteq> [] \<and>
          handleAssistantMessage m acc = Inr (acc @ [\<lparr>role = ''model'', parts = [TextPart t]\<rparr>])) \<and>
     (tcs \<noteq> [] \<and> c \<noteq> [] \<longrightarrow>
        handleAssistantMessage m acc =
          Inr (acc @ [\<lparr>role = ''model'',
                       parts = [TextPart (c @ newline @ js_join newline (map tool_note tcs))]\<rparr>]) \<and>
        occurs_in_order (c # map tool_note tcs)
          (c @ newline @ js_join newline (map tool_note tcs))) \<and>
     (tcs \<noteq> [] \<and> c = [] \<longrightarrow>
        handleAssistantMessage m acc =
          Inr (acc @ [\<lparr>role = ''model'',
                       parts = [TextPart (js_join newline (map tool_note tcs))]\<rparr>])) \<and>
     (tcs = [] \<longrightarrow>
        handleAssistantMessage m acc =
          Inr (acc @ [\<lparr>role = ''model'',
                       parts = [TextPart (if js_blank c then ''...'' else c)]\<rparr>]))"
  proof (intro conjI impI)
    show "\<exists>t. t \<noteq> [] \<and>
          handleAssistantMessage m acc = Inr (acc @ [\<lparr>role = ''model'', parts = [TextPart t]\<rparr>])"
      using h ne by blast
    show "handleAssistantMessage m acc =
          Inr (acc @ [\<lparr>role = ''model'',
                       parts = [TextPart (c @ newline @ js_join newline (map tool_note tcs))]\<rparr>])"
      if "tcs \<noteq> [] \<and> c \<noteq> []"
      using h that by (simp add: assistant_text_def)
    show "occurs_in_order (c # map tool_note tcs)
          (c @ newline @ js_join newline (map tool_note tcs))"
      by (rule content_then_notes)
    show "handleAssistantMessage m acc =
          Inr (acc @ [\<lparr>role = ''model'',
                       parts = [TextPart (js_join newline (map tool_note tcs))]\<rparr>])"
      if "tcs \<noteq> [] \<and> c = []"
      using h that by (simp add: assistant_text_def)
    show "handleAssistantMessage m acc =
          Inr (acc @ [\<lparr>role = ''model'',
                       parts = [TextPart (if js_blank c then ''...'' else c)]\<rparr>])"
      if "tcs = []"
      using h that by (simp add: assistant_text_def)
  qed
qed

lemma example_assistant_content:
  "content_or_empty (msg_content example_assistant_message) = JsString ''hi'' \<and>
   (case tool_calls example_assistant_message of None \<Rightarrow> [] | Some xs \<Rightarrow> xs) = [example_call]"
  by (simp add: example_assistant_message_def content_or_empty_def example_call_def)

theorem assistant_message_turn_witness:
  "content_or_empty (msg_content example_assistant_message) = JsString ''hi'' \<and>
   (case tool_calls example_assistant_message of None \<Rightarrow> [] | Some xs \<Rightarrow> xs) = [example_call] \<and>
   [example_call] \<noteq> [] \<and> ''hi'' \<noteq> [] \<and>
   handleAssistantMessage example_assistant_message [] =
     Inr [\<lparr>role = ''model'',
           parts = [TextPart (''hi'' @ newline @ tool_note example_call)]\<rparr>] \<and>
   occurs_in_order [''hi'', tool_note example_call] (''hi'' @ newline @ tool_note example_call)"
  using assistant_message_turn[of example_assistant_message "''hi''" "[example_call]" "[]"]
    example_assistant_content
  by (simp del: occurs_in_order.simps)

subsection \<open>Tool messages\<close>

text \<open>
  The two loops of the tool branch compute the first match of the backward scan, provided
  no matching call has an empty name (an empty name is falsy, and the code would go on
  scanning).
\<close>

lemma scan_parts_matches:
  "scan_parts tid ps fn = (case call_names tid ps of [] \<Rightarrow> fn | nm # rest \<Rightarrow> Some nm)"
  by (induction tid ps fn rule: scan_parts.induct) auto

lemma call_names_named:
  "list_all call_named ps \<Longrightarrow> list_all (\<lambda>nm. nm \<noteq> []) (call_names tid ps)"
  by (induction tid ps rule: call_names.induct) auto

lemma scan_turns_matches:
  "list_all (\<lambda>t. list_all call_named (parts t)) ts \<Longrightarrow> \<not> truthy_string fn \<Longrightarrow>
   scan_turns tid ts fn =
     (case concat (map (\<lambda>t. call_names tid (parts t)) (filter (\<lambda>t. role t = ''model'') ts)) of
        [] \<Rightarrow> fn | nm # rest \<Rightarrow> Some nm)"
proof (induction ts arbitrary: fn)
  case Nil
  then show ?case by simp
next
  case (Cons t ts)
  from Cons.prems have named: "list_all call_named (parts t)" 
    and rest: "list_all (\<lambda>t. list_all call_named (parts t)) ts" by simp_all
  note IH = Cons.IH[OF rest Cons.prems(2)]
  show ?case
  proof (cases "role t = ''model''")
    case False
    with IH Cons.prems show ?thesis by simp
  next
    case True
    show ?thesis
    proof (cases "call_names tid (parts t)")
      case Nil
      with IH True Cons.prems(2) show ?thesis by (simp add: scan_parts_matches)
    next
      case (Cons nm more)
      with call_names_named[OF named, of tid] have "nm \<noteq> []" by simp
      with Cons True show ?thesis by (simp add: scan_parts_matches)
    qed
  qed
qed

lemma resolve_refines:
  "calls_named turns \<Longrightarrow> resolveFunctionName m turns = spec_function_name m turns"
proof -
  assume cn: "calls_named turns"
  then have named: "list_all (\<lambda>t. list_all call_named (parts t)) (rev turns)"
    by (simp add: calls_named_def list_all_iff)
  have names: "list_all (\<lambda>nm. nm \<noteq> []) (spec_matching_calls tid turns)" for tid
  proof -
    have "list_all (\<lambda>nm. nm \<noteq> []) (call_names tid (parts t))" if "t \<in> set turns" for t
      using that cn call_names_named[of "parts t" tid] by (simp add: calls_named_def list_all_iff)
    then show ?thesis
      by (auto simp: spec_matching_calls_def list_all_iff)
  qed
  show ?thesis
  proof (cases "truthy_string (msg_name m)")
    case True
    then show ?thesis
      by (cases "msg_name m") (simp_all add: resolveFunctionName_def spec_function_name_def)
  next
    case False
    have st: "scan_turns (tool_call_id m) (rev turns) (msg_name m) =
        (case spec_matching_calls (tool_call_id m) turns of [] \<Rightarrow> msg_name m | nm # rest \<Rightarrow> Some nm)"
      using scan_turns_matches[OF named False] by (simp add: spec_matching_calls_def)
    show ?thesis
    proof (cases "spec_matching_calls (tool_call_id m) turns")
      case Nil
      with st False show ?thesis
        by (cases "msg_name m")
           (simp_all add: resolveFunctionName_def spec_function_name_def spec_first_match_def)
    next
      case (Cons nm rest)
      with names[of "tool_call_id m"] have "nm \<noteq> []" by simp
      with st False Cons show ?thesis
        by (cases "msg_name m")
           (simp_all add: resolveFunctionName_def spec_function_name_def spec_first_match_def)
    qed
  qed
qed

lemma no_calls_named: "no_calls turns \<Longrightarrow> calls_named turns"
proof -
  have "\<not> is_call p \<Longrightarrow> call_named p" for p by (cases p) simp_all
  then show "no_calls turns \<Longrightarrow> calls_named turns"
    by (auto simp: no_calls_def calls_named_def list_all_iff)
qed

text \<open>
The translator never emits a function-call part: assistant tool calls become text.
\<close>

lemma handleAssistantMessage_no_calls:
  "handleAssistantMessage m acc = Inr r \<Longrightarrow> no_calls acc \<Longrightarrow> no_calls r"
  by (auto simp: handleAssistantMessage_def Let_def no_calls_def split: js_text.splits)

lemma extract_items_images:
  "list_all (\<lambda>p. \<not> is_call p) (ex_images r) \<Longrightarrow>
   list_all (\<lambda>p. \<not> is_call p) (ex_images (extract_items items r))"
  by (induction items r rule: extract_items.induct) (auto split: option.splits)

lemma extract_no_calls: "list_all (\<lambda>p. \<not> is_call p) (ex_images (extractImagesFromContent c))"
  by (cases c) (simp_all add: extractImagesFromContent_def extract_items_images)

lemma translate_loop_no_calls:
  "translate_loop ms acc = Inr r \<Longrightarrow> no_calls acc \<Longrightarrow> no_calls r"
proof (induction ms arbitrary: acc)
  case Nil
  then show ?case by simp
next
  case (Cons m ms)
  show ?case
  proof (cases "msg_role m = ''user''")
    case True
    have "no_calls (handleUserMessage (extractImagesFromContent (msg_content m)) acc)"
      using Cons.prems(2) extract_no_calls[of "msg_content m"]
      by (simp add: handleUserMessage_def no_calls_def)
    with Cons True show ?thesis by simp
  next
    case nu: False
    show ?thesis
    proof (cases "msg_role m = ''assistant''")
      case True
      with nu Cons.prems obtain acc' where a: "handleAssistantMessage m acc = Inr acc'"
        and l: "translate_loop ms acc' = Inr r"
        by (auto split: sum.splits)
      from handleAssistantMessage_no_calls[OF a Cons.prems(2)] Cons.IH[OF l] show ?thesis
        by blast
    next
      case na: False
      show ?thesis
      proof (cases "msg_role m = ''tool''")
        case True
        have "no_calls (acc @ [fakeUserToolMessage m acc])"
          using Cons.prems(2) by (simp add: no_calls_def fakeUserToolMessage_def)
        with Cons nu na True show ?thesis by simp
      next
        case False
        with Cons nu na show ?thesis by simp
      qed
    qed
  qed
qed

lemma openaiMessageToAntigravity_no_calls:
  "openaiMessageToAntigravity ms = Inr turns \<Longrightarrow> no_calls turns"
proof -
  assume "openaiMessageToAntigravity ms = Inr turns"
  then have "translate_loop ms [] = Inr turns" by (simp add: openaiMessageToAntigravity_def)
  moreover have "no_calls []" by (simp add: no_calls_def)
  ultimately show "no_calls turns" by (rule translate_loop_no_calls)
qed

lemma no_calls_first_match: "no_calls turns \<Longrightarrow> spec_matching_calls tid turns = []"
proof -
  have "list_all (\<lambda>p. \<not> is_call p) ps \<Longrightarrow> call_names tid ps = []" for ps
    by (induction tid ps rule: call_names.induct) auto
  then show "no_calls turns \<Longrightarrow> spec_matching_calls tid turns = []"
    by (auto simp: no_calls_def spec_matching_calls_def list_all_iff)
qed

lemma translate_loop_append:
  "translate_loop (ms @ ms') acc =
     (case translate_loop ms acc of Inl e \<Rightarrow> Inl e | Inr r \<Rightarrow> translate_loop ms' r)"
  by (induction ms arbitrary: acc) (auto split: sum.splits)

lemma translate_loop_tool:
  "msg_role m = ''tool'' \<Longrightarrow>
   translate_loop (m # rest) acc =
     translate_loop rest
       (acc @ [\<lparr>role = ''user'',
                 parts = [FunctionResponse (resolveFunctionName m acc) (msg_content m)]\<rparr>])"
  by (simp add: fakeUserToolMessage_def)

text \<open>
  Claim C2. For every message of role \<open>tool\<close> the translator appends a new \<open>user\<close> turn whose
  single part is a \<open>functionResponse\<close>; the turns already built are left as they are, so the
  turn is never merged into a previous one. The function name is the message's own name when
  it is present (truthy); otherwise it is the name of the first function-call part whose id
  equals the message's \<open>tool_call_id\<close>, scanning the prior \<open>model\<close> turns from the most recent;
  and it is \<open>unknown_tool\<close> when there is no match. The first conjunct is the step of the loop
  on any accumulated turn list, the second is the agreement of the code's scan with the
  specification's on such a list, and the third is the statement for the translator as a
  whole.
\<close>

theorem tool_message_turn:
  "msg_role m = ''tool'' \<longrightarrow>
     translate_loop (m # rest) acc =
       translate_loop rest
         (acc @ [\<lparr>role = ''user'',
                   parts = [FunctionResponse (resolveFunctionName m acc) (msg_content m)]\<rparr>]) \<and>
     (calls_named acc \<longrightarrow> resolveFunctionName m acc = spec_function_name m acc) \<and>
     (\<forall>turns. openaiMessageToAntigravity pre = Inr turns \<longrightarrow>
        openaiMessageToAntigravity (pre @ [m]) =
          Inr (turns @ [\<lparr>role = ''user'',
                          parts = [FunctionResponse (spec_function_name m turns)
                                     (msg_content m)]\<rparr>]))"
proof (intro impI conjI allI)
  assume t: "msg_role m = ''tool''"
  show "translate_loop (m # rest) acc =
       translate_loop rest
         (acc @ [\<lparr>role = ''user'',
                   parts = [FunctionResponse (resolveFunctionName m acc) (msg_content m)]\<rparr>])"
    using t by (rule translate_loop_tool)
  show "resolveFunctionName m acc = spec_function_name m acc" if "calls_named acc"
    using that by (rule resolve_refines)
  fix turns
  assume pre: "openaiMessageToAntigravity pre = Inr turns"
  then have "calls_named turns"
    by (intro no_calls_named openaiMessageToAntigravity_no_calls)
  then have r: "resolveFunctionName m turns = spec_function_name m turns"
    by (rule resolve_refines)
  have "openaiMessageToAntigravity (pre @ [m]) = translate_loop [m] turns"
    using pre by (simp add: openaiMessageToAntigravity_def translate_loop_append)
  also have "\<dots> = Inr (turns @ [\<lparr>role = ''user'',
                 parts = [FunctionResponse (resolveFunctionName m turns) (msg_content m)]\<rparr>])"
    using t by (simp add: fakeUserToolMessage_def)
  finally show "openaiMessageToAntigravity (pre @ [m]) =
          Inr (turns @ [\<lparr>role = ''user'',
                          parts = [FunctionResponse (spec_function_name m turns)
                                     (msg_content m)]\<rparr>])"
    using r by simp
qed

text \<open>
  In a conversation translated from the start no function-call part exists, so a tool
  message without a name of its own always gets the sentinel, also when an earlier assistant
  message made a tool call with the same id: that call was rendered as text.
\<close>

lemma translated_name_is_sentinel:
  assumes "openaiMessageToAntigravity pre = Inr turns" and "\<not> truthy_string (msg_name m)"
  shows "spec_function_name m turns = ''unknown_tool''"
proof -
  from assms(1) have "no_calls turns" by (rule openaiMessageToAntigravity_no_calls)
  then have "spec_matching_calls (tool_call_id m) turns = []" by (rule no_calls_first_match)
  with assms(2) show ?thesis
    by (cases "msg_name m") (simp_all add: spec_function_name_def spec_first_match_def)
qed

text \<open>
  The theorem at a turn list that holds a matching call (the name is found), and at the
  conversation of an assistant message that calls a tool and the tool message that answers
  it (the name is the sentinel).
\<close>

lemma example_tool_role: "msg_role example_tool_message = ''tool''"
  by (simp add: example_tool_message_def)

lemma example_call_named: "calls_named [example_call_turn]"
  by (simp add: calls_named_def example_call_turn_def)

lemma example_spec_name: "spec_function_name example_tool_message [example_call_turn] = ''get_weather''"
  by (simp add: spec_function_name_def spec_first_match_def spec_matching_calls_def
      example_tool_message_def example_call_turn_def)

lemma example_pre: "openaiMessageToAntigravity [example_assistant_message] =
    Inr [\<lparr>role = ''model'', parts = [TextPart example_text]\<rparr>]"
  using example_assistant_turn
  by (simp add: openaiMessageToAntigravity_def example_assistant_message_def)

lemma example_spec_name_unknown:
  "spec_function_name example_tool_message [\<lparr>role = ''model'', parts = [TextPart example_text]\<rparr>] =
     ''unknown_tool''"
  using example_pre by (rule translated_name_is_sentinel) (simp add: example_tool_message_def)

theorem tool_message_turn_witness:
  "msg_role example_tool_message = ''tool'' \<and>
   calls_named [example_call_turn] \<and>
   translate_loop [example_tool_message] [example_call_turn] =
     Inr [example_call_turn,
          \<lparr>role = ''user'', parts = [FunctionResponse ''get_weather'' (TextContent ''sunny'')]\<rparr>] \<and>
   openaiMessageToAntigravity [example_assistant_message, example_tool_message] =
     Inr [\<lparr>role = ''model'', parts = [TextPart example_text]\<rparr>,
          \<lparr>role = ''user'', parts = [FunctionResponse ''unknown_tool'' (TextContent ''sunny'')]\<rparr>]"
  using tool_message_turn[of example_tool_message "[]" "[example_call_turn]"
      "[example_assistant_message]"]
    example_tool_role example_call_named example_spec_name example_pre example_spec_name_unknown
  by (simp add: example_tool_message_def)

subsection \<open>Turn order\<close>

text \<open>
  \<open>handleAssistantMessage\<close> raises exactly on array content without tool calls; on every
  other assistant message it appends one \<open>model\<close> turn with one text part.
\<close>

lemma handleAssistantMessage_raises:
  "array_without_calls m \<Longrightarrow> handleAssistantMessage m acc = Inl trim_type_error"
  by (auto simp: array_without_calls_def handleAssistantMessage_def Let_def content_or_empty_def
      split: content.splits option.splits)

lemma handleAssistantMessage_total:
  assumes "msg_role m = ''assistant''" and "\<not> array_without_calls m"
  shows "\<exists>t. handleAssistantMessage m acc = Inr (acc @ [\<lparr>role = ''model'', parts = [TextPart t]\<rparr>])"
proof (cases "content_or_empty (msg_content m)")
  case (JsString c)
  then show ?thesis using handleAssistantMessage_text[of m c acc] by blast
next
  case (JsArray xs)
  then have "\<exists>ys. msg_content m = ArrayContent ys"
    by (cases "msg_content m") (simp_all add: content_or_empty_def)
  with assms obtain tcs where tcs: "tool_calls m = Some tcs" "tcs \<noteq> []"
    by (auto simp: array_without_calls_def split: option.splits)
  have "CHR ''['' \<in> set (js_join newline (map tool_note tcs))"
    using tcs(2) by (rule js_join_bracket)
  then have "\<not> js_blank (js_to_string (JsArray xs) @ newline @ js_join newline (map tool_note tcs))"
    by (intro bracket_not_blank) simp
  with JsArray tcs show ?thesis
    by (simp add: handleAssistantMessage_def Let_def newline_def)
qed

text \<open>
  When no message raises, the translation appends one turn per \<open>user\<close>, \<open>assistant\<close> or
  \<open>tool\<close> message, in the order of the messages, and nothing for any other role. A list of
  \<open>user\<close> and \<open>system\<close> messages yields exactly the \<open>user\<close> turns of its \<open>user\<close> messages.
\<close>

lemma translation_order:
  "list_all (\<lambda>m. \<not> array_without_calls m) ms \<Longrightarrow>
   \<exists>new. translate_loop ms acc = Inr (acc @ new) \<and>
         map role new = map turn_role_of (filter contributes ms)"
proof (induction ms arbitrary: acc)
  case Nil
  then show ?case by simp
next
  case (Cons m ms)
  from Cons.prems have ok: "\<not> array_without_calls m"
    and rest: "list_all (\<lambda>m. \<not> array_without_calls m) ms" by simp_all
  show ?case
  proof (cases "contributes m")
    case False
    from Cons.IH[OF rest, of acc] False show ?thesis
      by (simp add: contributes_def)
  next
    case True
    have "\<exists>t. role t = turn_role_of m \<and>
              translate_loop (m # ms) acc = translate_loop ms (acc @ [t])"
    proof (cases "msg_role m = ''assistant''")
      case True
      from handleAssistantMessage_total[OF True ok, of acc] obtain t where
        "handleAssistantMessage m acc = Inr (acc @ [\<lparr>role = ''model'', parts = [TextPart t]\<rparr>])"
        by blast
      with True show ?thesis
        by (intro exI[of _ "\<lparr>role = ''model'', parts = [TextPart t]\<rparr>"])
           (simp add: turn_role_of_def)
    next
      case na: False
      show ?thesis
      proof (cases "msg_role m = ''user''")
        case True
        then show ?thesis
          by (intro exI[of _ "user_turn m"])
             (simp add: turn_role_of_def user_turn_def handleUserMessage_def)
      next
        case False
        with na \<open>contributes m\<close> have "msg_role m = ''tool''" by (simp add: contributes_def)
        with na False show ?thesis
          by (intro exI[of _ "fakeUserToolMessage m acc"])
             (simp add: turn_role_of_def fakeUserToolMessage_def)
      qed
    qed
    then obtain t where t: "role t = turn_role_of m"
      "translate_loop (m # ms) acc = translate_loop ms (acc @ [t])" by blast
    from Cons.IH[OF rest, of "acc @ [t]"] obtain new where
      new: "translate_loop ms (acc @ [t]) = Inr ((acc @ [t]) @ new)"
      "map role new = map turn_role_of (filter contributes ms)" by blast
    show ?thesis
      using t new True by (intro exI[of _ "t # new"]) simp
  qed
qed

lemma user_system_only:
  "list_all (\<lambda>m. msg_role m = ''user'' \<or> msg_role m = ''system'') ms \<Longrightarrow>
   translate_loop ms acc =
     Inr (acc @ map user_turn (filter (\<lambda>m. msg_role m = ''user'') ms))"
  by (induction ms arbitrary: acc) (auto simp: handleUserMessage_def user_turn_def)

lemma example_array_raises: "array_without_calls example_array_assistant"
  by (simp add: array_without_calls_def example_array_assistant_def)

text \<open>
  Claim C7. The translator appends exactly one turn for each \<open>user\<close>, \<open>assistant\<close> or \<open>tool\<close>
  message and never drops a turn. The code breaks this on an assistant message whose
  content is an array of parts and that has no tool calls: \<open>content.trim()\<close> raises a
  \<open>TypeError\<close>, the translation is abandoned, and the \<open>user\<close> turn built before is lost with
  it.
\<close>

theorem array_assistant_aborts_translation:
  "openaiMessageToAntigravity [example_user_message, example_array_assistant] =
     Inl \<lparr>err_message = ''content.trim is not a function'', err_status = None\<rparr>"
  using handleAssistantMessage_raises[OF example_array_raises]
  by (simp add: openaiMessageToAntigravity_def example_user_message_def trim_type_error_def
      example_array_assistant_def)

subsection \<open>Stream relay\<close>

lemma stream_callback_delta:
  "stream_callback cid created mdl (res, h) ev =
     (writeStreamData res (createStreamChunk cid created mdl (spec_delta ev) None),
      h \<or> ev_type ev = ''tool_calls'')"
  by (simp add: stream_callback_def spec_delta_def Let_def)

lemma stream_fold_written:
  "written (fst (foldl (stream_callback cid created mdl) (res, h) events)) =
     written res @ map (\<lambda>ev. SseData (createStreamChunk cid created mdl (spec_delta ev) None)) events"
  by (induction events arbitrary: res h)
     (simp_all add: stream_callback_delta writeStreamData_def res_write_def)

lemma stream_fold_flag:
  "snd (foldl (stream_callback cid created mdl) (res, h) events) =
     (h \<or> list_ex (\<lambda>ev. ev_type ev = ''tool_calls'') events)"
  by (induction events arbitrary: res h) (auto simp: stream_callback_delta)

lemma stream_fold_status:
  "statusCode (fst (foldl (stream_callback cid created mdl) (res, h) events)) = statusCode res"
  by (induction events arbitrary: res h)
     (simp_all add: stream_callback_delta writeStreamData_def res_write_def)

lemma stream_fold_ended:
  "ended (fst (foldl (stream_callback cid created mdl) (res, h) events)) = ended res"
  by (induction events arbitrary: res h)
     (simp_all add: stream_callback_delta writeStreamData_def res_write_def)

lemma stream_fold_headersSent:
  "headersSent (fst (foldl (stream_callback cid created mdl) (res, h) events)) =
     (headersSent res \<or> events \<noteq> [])"
  by (induction events arbitrary: res h)
     (auto simp: stream_callback_delta writeStreamData_def res_write_def)

lemma setStreamHeaders_fields:
  "written (setStreamHeaders res) = written res"
  "statusCode (setStreamHeaders res) = statusCode res"
  "ended (setStreamHeaders res) = ended res"
  "headersSent (setStreamHeaders res) = headersSent res"
  by (simp_all add: setStreamHeaders_def res_setHeader_def)

lemma endStream_fields:
  "written (endStream res cid created mdl fr) =
     written res @ [SseData (createStreamChunk cid created mdl DeltaEmpty (Some fr)), SseDone]"
  "statusCode (endStream res cid created mdl fr) = statusCode res"
  "ended (endStream res cid created mdl fr)"
  by (simp_all add: endStream_def res_end_def res_write_def writeStreamData_def)

lemma res_json_fields:
  "written (res_json body res) = written res @ [JsonBody body]"
  "statusCode (res_json body res) = statusCode res"
  "ended (res_json body res)"
  "headersSent (res_json body res)"
  by (simp_all add: res_json_def res_end_def res_write_def res_setHeader_def)

lemma try_block_stream:
  assumes "messages body = Some msgs" and "getToken e = Some tok" and "req_model body = Some mdl"
    and "\<not> js_includes mdl ''-image''" and "stream body"
    and "generateRequestBody (env_config e) (generateRequestId e) msgs mdl (params body)
           (req_tools body) tok = (Inr rb, tools')"
  shows "try_block e body res =
     stream_events_branch e rb tok (''chatcmpl-'' @ nat_to_string (now_id e))
       (now_created e div 1000) mdl (setStreamHeaders res)"
  using assms by (simp add: try_block_def createResponseMeta_def)

lemma stream_events_complete:
  assumes "generateAssistantResponse e rb tok = (events, None)"
  shows "stream_events_branch e rb tok cid created mdl res =
     (endStream (fst (foldl (stream_callback cid created mdl) (res, False) events)) cid created mdl
        (spec_finish_reason events),
      [CallGetToken, CallGenerateAssistantResponse], None)"
  using assms
  by (simp add: stream_events_branch_def Let_def stream_fold_flag spec_finish_reason_def)

lemma stream_events_failure:
  assumes "generateAssistantResponse e rb tok = (events, Some err)"
  shows "stream_events_branch e rb tok cid created mdl res =
     (fst (foldl (stream_callback cid created mdl) (res, False) events),
      [CallGetToken, CallGenerateAssistantResponse], Some err)"
  using assms by (simp add: stream_events_branch_def Let_def)

lemma chat_completions_ok:
  "try_block e body res = (res', calls, None) \<Longrightarrow>
   chat_completions e body res = (res', calls, None)"
  by (simp add: chat_completions_def)

lemma chat_completions_caught:
  "try_block e body res = (res', calls, Some error) \<Longrightarrow>
   chat_completions e body res =
     (fst (catch_block error (stream body) res'), calls, snd (catch_block error (stream body) res'))"
  by (simp add: chat_completions_def split: prod.splits)

text \<open>
  Claim C3. In the streaming path each upstream event becomes exactly one chunk, in arrival
  order: a \<open>thinking\<close> event a \<open>reasoning_content\<close> delta, a \<open>tool_calls\<close> event a \<open>tool_calls\<close>
  delta, any other event a \<open>content\<close> delta, each with no finish reason. After the events
  comes one chunk with an empty delta and the finish reason \<open>tool_calls\<close> if a tool-call
  event was seen and \<open>stop\<close> otherwise, then \<open>data: [DONE]\<close>, and the response is ended. All
  chunks carry the id, creation time and model of the response and the object tag
  \<open>chat.completion.chunk\<close>. The hypotheses are those of the path: a message list, a token, a
  model whose name does not contain \<open>-image\<close>, \<open>stream\<close> set, a request body that could be
  assembled, and an upstream run that completes.
\<close>

theorem streaming_relay:
  "messages body = Some msgs \<and> getToken e = Some tok \<and> req_model body = Some mdl \<and>
   \<not> js_includes mdl ''-image'' \<and> stream body \<and>
   generateRequestBody (env_config e) (generateRequestId e) msgs mdl (params body)
     (req_tools body) tok = (Inr rb, tools') \<and>
   generateAssistantResponse e rb tok = (events, None) \<and>
   cid = ''chatcmpl-'' @ nat_to_string (now_id e) \<and> created = now_created e div 1000 \<longrightarrow>
   (case chat_completions e body new_response of
      (res, calls, escaped) \<Rightarrow>
        written res =
          map (\<lambda>ev. SseData \<lparr>chunk_id = cid, chunk_object = ''chat.completion.chunk'',
                               chunk_created = created, chunk_model = mdl,
                               chunk_delta =
                                 (if ev_type ev = ''thinking'' then DeltaReasoning (ev_content ev)
                                  else if ev_type ev = ''tool_calls''
                                       then DeltaToolCalls (ev_tool_calls ev)
                                  else DeltaContent (ev_content ev)),
                               finish_reason = None\<rparr>) events @
          [SseData \<lparr>chunk_id = cid, chunk_object = ''chat.completion.chunk'',
                     chunk_created = created, chunk_model = mdl,
                     chunk_delta = DeltaEmpty,
                     finish_reason =
                       Some (if list_ex (\<lambda>ev. ev_type ev = ''tool_calls'') events
                             then ''tool_calls'' else ''stop'')\<rparr>,
           SseDone] \<and>
        ended res \<and> statusCode res = 200 \<and>
        calls = [CallGetToken, CallGenerateAssistantResponse] \<and> escaped = None)"
proof (intro impI, elim conjE)
  assume a: "messages body = Some msgs" "getToken e = Some tok" "req_model body = Some mdl"
    "\<not> js_includes mdl ''-image''" "stream body"
    "generateRequestBody (env_config e) (generateRequestId e) msgs mdl (params body)
       (req_tools body) tok = (Inr rb, tools')"
    and up: "generateAssistantResponse e rb tok = (events, None)"
    and ids: "cid = ''chatcmpl-'' @ nat_to_string (now_id e)" "created = now_created e div 1000"
  have "try_block e body new_response =
      stream_events_branch e rb tok cid created mdl (setStreamHeaders new_response)"
    unfolding ids using a by (rule try_block_stream)
  also have "\<dots> =
      (endStream (fst (foldl (stream_callback cid created mdl)
                         (setStreamHeaders new_response, False) events))
         cid created mdl (spec_finish_reason events),
       [CallGetToken, CallGenerateAssistantResponse], None)"
    using up by (rule stream_events_complete)
  finally have t: "try_block e body new_response =
      (endStream (fst (foldl (stream_callback cid created mdl)
                         (setStreamHeaders new_response, False) events))
         cid created mdl (spec_finish_reason events),
       [CallGetToken, CallGenerateAssistantResponse], None)" .
  show "case chat_completions e body new_response of
      (res, calls, escaped) \<Rightarrow>
        written res =
          map (\<lambda>ev. SseData \<lparr>chunk_id = cid, chunk_object = ''chat.completion.chunk'',
                               chunk_created = created, chunk_model = mdl,
                               chunk_delta =
                                 (if ev_type ev = ''thinking'' then DeltaReasoning (ev_content ev)
                                  else if ev_type ev = ''tool_calls''
                                       then DeltaToolCalls (ev_tool_calls ev)
                                  else DeltaContent (ev_content ev)),
                               finish_reason = None\<rparr>) events @
          [SseData \<lparr>chunk_id = cid, chunk_object = ''chat.completion.chunk'',
                     chunk_created = created, chunk_model = mdl,
                     chunk_delta = DeltaEmpty,
                     finish_reason =
                       Some (if list_ex (\<lambda>ev. ev_type ev = ''tool_calls'') events
                             then ''tool_calls'' else ''stop'')\<rparr>,
           SseDone] \<and>
        ended res \<and> statusCode res = 200 \<and>
        calls = [CallGetToken, CallGenerateAssistantResponse] \<and> escaped = None"
    unfolding chat_completions_ok[OF t]
    by (simp add: endStream_fields stream_fold_written stream_fold_status
        setStreamHeaders_fields new_response_def createStreamChunk_def spec_delta_def
        spec_finish_reason_def)
qed

text \<open>
  The scenario of the specification: a thinking event \<open>a\<close>, a text event \<open>b\<close> and a tool-call
  event. The response holds a \<open>reasoning_content\<close> delta, a \<open>content\<close> delta, a \<open>tool_calls\<close>
  delta, the terminal chunk with finish reason \<open>tool_calls\<close>, and \<open>[DONE]\<close>.
\<close>

lemma example_request_body:
  "\<exists>rb. generateRequestBody
          \<lparr>cfg_defaults = example_sampling, cfg_systemInstruction = None\<rparr> ''r''
          [example_user_message] ''gemini-2.5-flash'' example_sampling None
          \<lparr>projectId = ''p'', tok_sessionId = ''s''\<rparr> = (Inr rb, None)"
  by (simp add: generateRequestBody_def Let_def openaiMessageToAntigravity_def
      example_user_message_def convertOpenAIToolsToAntigravity_def)

lemma example_not_image: "\<not> js_includes ''gemini-2.5-flash'' ''-image''"
  unfolding js_includes_def by code_simp

theorem streaming_relay_witness:
  "(case chat_completions
           (example_env
              [\<lparr>ev_type = ''thinking'', ev_content = ''a'', ev_tool_calls = []\<rparr>,
               \<lparr>ev_type = ''text'', ev_content = ''b'', ev_tool_calls = []\<rparr>,
               \<lparr>ev_type = ''tool_calls'', ev_content = [],
                ev_tool_calls = [\<lparr>tc_id = ''call_1'', tc_name = ''f'', tc_arguments = ''{}''\<rparr>]\<rparr>]
              None)
           example_stream_request new_response of
      (res, calls, escaped) \<Rightarrow>
        written res =
          [SseData \<lparr>chunk_id = ''chatcmpl-5'', chunk_object = ''chat.completion.chunk'',
                     chunk_created = 5, chunk_model = ''gemini-2.5-flash'',
                     chunk_delta = DeltaReasoning ''a'', finish_reason = None\<rparr>,
           SseData \<lparr>chunk_id = ''chatcmpl-5'', chunk_object = ''chat.completion.chunk'',
                     chunk_created = 5, chunk_model = ''gemini-2.5-flash'',
                     chunk_delta = DeltaContent ''b'', finish_reason = None\<rparr>,
           SseData \<lparr>chunk_id = ''chatcmpl-5'', chunk_object = ''chat.completion.chunk'',
                     chunk_created = 5, chunk_model = ''gemini-2.5-flash'',
                     chunk_delta = DeltaToolCalls [\<lparr>tc_id = ''call_1'', tc_name = ''f'', tc_arguments = ''{}''\<rparr>], finish_reason = None\<rparr>,
           SseData \<lparr>chunk_id = ''chatcmpl-5'', chunk_object = ''chat.completion.chunk'',
                     chunk_created = 5, chunk_model = ''gemini-2.5-flash'',
                     chunk_delta = DeltaEmpty, finish_reason = Some ''tool_calls''\<rparr>,
           SseDone] \<and>
        ended res \<and> statusCode res = 200 \<and>
        calls = [CallGetToken, CallGenerateAssistantResponse] \<and> escaped = None)"
proof -
  from example_request_body obtain rb where
    rb: "generateRequestBody
          \<lparr>cfg_defaults = example_sampling, cfg_systemInstruction = None\<rparr> ''r''
          [example_user_message] ''gemini-2.5-flash'' example_sampling None
          \<lparr>projectId = ''p'', tok_sessionId = ''s''\<rparr> = (Inr rb, None)" by blast
  have "nat_to_string 5 = ''5''" by code_simp
  then have ids: "''chatcmpl-'' @ nat_to_string 5 = ''chatcmpl-5''" "(5000::nat) div 1000 = 5"
    by simp_all
  show ?thesis
    using streaming_relay[of example_stream_request "[example_user_message]"
        "example_env example_events None" "\<lparr>projectId = ''p'', tok_sessionId = ''s''\<rparr>"
        "''gemini-2.5-flash''" rb None example_events "''chatcmpl-5''" 5]
      rb example_not_image ids
    by (simp add: example_env_def example_stream_request_def example_events_def
        example_call_def)
qed

subsection \<open>Validation\<close>

text \<open>
  Claim C8. A request whose body has no \<open>messages\<close> is answered with status 400 and the body
  \<open>{error: "messages is required"}\<close>, and no external collaborator is called: neither the
  credential provider nor an upstream invoker.
\<close>

theorem missing_messages_rejected:
  "messages body = None \<longrightarrow>
     chat_completions e body res =
       (res_json (SimpleError ''messages is required'') (res\<lparr>statusCode := 400\<rparr>), [], None) \<and>
     (case chat_completions e body new_response of
        (res', calls, escaped) \<Rightarrow>
          statusCode res' = 400 \<and>
          written res' = [JsonBody (SimpleError ''messages is required'')] \<and>
          ended res' \<and> calls = [] \<and> escaped = None)"
proof (intro impI)
  assume "messages body = None"
  then have t: "try_block e body r =
      (res_json (SimpleError ''messages is required'') (r\<lparr>statusCode := 400\<rparr>), [], None)" for r
    by (simp add: try_block_def res_status_def)
  show "chat_completions e body res =
       (res_json (SimpleError ''messages is required'') (res\<lparr>statusCode := 400\<rparr>), [], None) \<and>
     (case chat_completions e body new_response of
        (res', calls, escaped) \<Rightarrow>
          statusCode res' = 400 \<and>
          written res' = [JsonBody (SimpleError ''messages is required'')] \<and>
          ended res' \<and> calls = [] \<and> escaped = None)"
    unfolding chat_completions_ok[OF t]
    by (simp add: res_json_fields new_response_def)
qed

theorem missing_messages_rejected_witness:
  "messages example_no_messages = None \<and>
   (case chat_completions (example_env example_events None) example_no_messages new_response of
      (res', calls, escaped) \<Rightarrow>
        statusCode res' = 400 \<and>
        written res' = [JsonBody (SimpleError ''messages is required'')] \<and>
        ended res' \<and> calls = [] \<and> escaped = None)"
proof -
  have h: "messages example_no_messages = None" by (simp add: example_no_messages_def)
  from missing_messages_rejected[of example_no_messages "example_env example_events None"
      new_response] h
  have "chat_completions (example_env example_events None) example_no_messages new_response =
       (res_json (SimpleError ''messages is required'') (new_response\<lparr>statusCode := 400\<rparr>), [], None) \<and>
     (case chat_completions (example_env example_events None) example_no_messages new_response of
        (res', calls, escaped) \<Rightarrow>
          statusCode res' = 400 \<and>
          written res' = [JsonBody (SimpleError ''messages is required'')] \<and>
          ended res' \<and> calls = [] \<and> escaped = None)"
    by (rule mp)
  then have "case chat_completions (example_env example_events None) example_no_messages
                 new_response of
        (res', calls, escaped) \<Rightarrow>
          statusCode res' = 400 \<and>
          written res' = [JsonBody (SimpleError ''messages is required'')] \<and>
          ended res' \<and> calls = [] \<and> escaped = None"
    by (rule conjunct2)
  with h show ?thesis by (rule conjI)
qed

subsection \<open>Error classifier\<close>

lemma has_marker_iff:
  "has_rate_limit_marker msg \<longleftrightarrow>
     js_includes msg ''429'' \<or> js_includes msg ''capacity'' \<or> js_includes msg ''RESOURCE_EXHAUSTED''"
  by (simp add: has_rate_limit_marker_def js_includes_def)

text \<open>
Once headers are sent the catch block leaves the response as it is.
\<close>

lemma catch_block_after_headers:
  "headersSent res \<Longrightarrow> catch_block error strm res = (res, None)"
  by (simp add: catch_block_def)

text \<open>
  A failing upstream run in the streaming path. The stream headers are set but not sent
  until the first chunk is written: when the run fails before its first event the catch
  block answers, and when it fails after an event the response is left as the events made
  it, neither extended nor ended.
\<close>

lemma stream_failure_try:
  assumes "messages body = Some msgs" and "getToken e = Some tok" and "req_model body = Some mdl"
    and "\<not> js_includes mdl ''-image''" and "stream body"
    and "generateRequestBody (env_config e) (generateRequestId e) msgs mdl (params body)
           (req_tools body) tok = (Inr rb, tools')"
    and "generateAssistantResponse e rb tok = (events, Some err)"
  shows "try_block e body res =
     (fst (foldl (stream_callback (''chatcmpl-'' @ nat_to_string (now_id e))
                    (now_created e div 1000) mdl)
             (setStreamHeaders res, False) events),
      [CallGetToken, CallGenerateAssistantResponse], Some err)"
proof -
  have "try_block e body res =
      stream_events_branch e rb tok (''chatcmpl-'' @ nat_to_string (now_id e))
        (now_created e div 1000) mdl (setStreamHeaders res)"
    using assms(1-6) by (rule try_block_stream)
  also have "\<dots> =
     (fst (foldl (stream_callback (''chatcmpl-'' @ nat_to_string (now_id e))
                    (now_created e div 1000) mdl)
             (setStreamHeaders res, False) events),
      [CallGetToken, CallGenerateAssistantResponse], Some err)"
    using assms(7) by (rule stream_events_failure)
  finally show ?thesis .
qed


lemma stream_failure_after_chunks:
  assumes "messages body = Some msgs" and "getToken e = Some tok" and "req_model body = Some mdl"
    and "\<not> js_includes mdl ''-image''" and "stream body"
    and "generateRequestBody (env_config e) (generateRequestId e) msgs mdl (params body)
           (req_tools body) tok = (Inr rb, tools')"
    and "generateAssistantResponse e rb tok = (events, Some err)"
    and "events \<noteq> []"
  shows "chat_completions e body new_response =
     (fst (foldl (stream_callback (''chatcmpl-'' @ nat_to_string (now_id e))
                    (now_created e div 1000) mdl)
             (setStreamHeaders new_response, False) events),
      [CallGetToken, CallGenerateAssistantResponse], None)"
proof -
  let ?X = "fst (foldl (stream_callback (''chatcmpl-'' @ nat_to_string (now_id e))
                    (now_created e div 1000) mdl)
             (setStreamHeaders new_response, False) events)"
  have t: "try_block e body new_response =
      (?X, [CallGetToken, CallGenerateAssistantResponse], Some err)"
    using assms(1-7) by (rule stream_failure_try)
  have sent: "headersSent ?X"
    unfolding stream_fold_headersSent using assms(8) by simp
  show ?thesis
    unfolding chat_completions_caught[OF t] catch_block_after_headers[OF sent] by simp
qed

lemma example_env_fields:
  "env_config (example_env events failure) =
     \<lparr>cfg_defaults = example_sampling, cfg_systemInstruction = None\<rparr>"
  "getToken (example_env events failure) = Some \<lparr>projectId = ''p'', tok_sessionId = ''s''\<rparr>"
  "generateRequestId (example_env events failure) = ''r''"
  "now_id (example_env events failure) = 5"
  "now_created (example_env events failure) = 5000"
  "generateAssistantResponse (example_env events failure) rb tok = (events, failure)"
  by (simp_all add: example_env_def)

lemma example_stream_request_fields:
  "messages example_stream_request = Some [example_user_message]"
  "req_model example_stream_request = Some ''gemini-2.5-flash''"
  "stream example_stream_request"
  "req_tools example_stream_request = None"
  "params example_stream_request = example_sampling"
  by (simp_all add: example_stream_request_def)




text \<open>
  An own status outside 100 to 999 is classified like any other, but \<open>res.status\<close> refuses it:
  the \<open>RangeError\<close> leaves the catch block, and nothing is written to the response.
\<close>

lemma unsendable_own_status_escapes:
  assumes "\<not> headersSent res" and "\<not> has_rate_limit_marker (err_message error)"
    and "err_status error = Some s" and "s \<noteq> 0" and "s < 100 \<or> 999 < s"
  shows "catch_block error strm res = (res, Some (invalid_status_error s))"
proof -
  from assms(2-4) have "error_status error = s"
    by (simp add: error_status_def has_marker_iff)
  with assms(1,5) show ?thesis
    by (auto simp: catch_block_def respond_error_def res_status_def Let_def)
qed

lemma example_unsendable_status:
  "catch_block \<lparr>err_message = ''boom'', err_status = Some 1000\<rparr> False new_response =
     (new_response,
      Some \<lparr>err_message =
              ''Invalid status code: 1000. Status code must be greater than 99 and less than 1000.'',
            err_status = None\<rparr>)"
proof -
  have m: "\<not> has_rate_limit_marker (err_message \<lparr>err_message = ''boom'', err_status = Some 1000\<rparr>)"
    unfolding has_rate_limit_marker_def by code_simp
  have n: "invalid_status_error 1000 =
      \<lparr>err_message =
         ''Invalid status code: 1000. Status code must be greater than 99 and less than 1000.'',
       err_status = None\<rparr>"
    by code_simp
  have "catch_block \<lparr>err_message = ''boom'', err_status = Some 1000\<rparr> False new_response =
      (new_response, Some (invalid_status_error 1000))"
    by (rule unsendable_own_status_escapes[OF _ m]) (simp_all add: new_response_def)
  then show ?thesis unfolding n .
qed




lemma example_try_block_failure:
  "try_block (example_env example_partial_events (Some example_upstream_error))
     example_stream_request new_response =
   (fst (foldl (stream_callback ''chatcmpl-5'' 5 ''gemini-2.5-flash'')
           (setStreamHeaders new_response, False) example_partial_events),
    [CallGetToken, CallGenerateAssistantResponse], Some example_upstream_error)"
proof -
  let ?e = "example_env example_partial_events (Some example_upstream_error)"
  from example_request_body obtain rb where
    rb: "generateRequestBody
          \<lparr>cfg_defaults = example_sampling, cfg_systemInstruction = None\<rparr> ''r''
          [example_user_message] ''gemini-2.5-flash'' example_sampling None
          \<lparr>projectId = ''p'', tok_sessionId = ''s''\<rparr> = (Inr rb, None)" by blast
  have n5: "nat_to_string 5 = ''5''" by code_simp
  have "try_block ?e example_stream_request new_response =
      stream_events_branch ?e rb \<lparr>projectId = ''p'', tok_sessionId = ''s''\<rparr>
        (''chatcmpl-'' @ nat_to_string (now_id ?e)) (now_created ?e div 1000) ''gemini-2.5-flash''
        (setStreamHeaders new_response)"
  proof (rule try_block_stream)
    show "messages example_stream_request = Some [example_user_message]"
      by (rule example_stream_request_fields)
    show "getToken ?e = Some \<lparr>projectId = ''p'', tok_sessionId = ''s''\<rparr>"
      by (rule example_env_fields)
    show "req_model example_stream_request = Some ''gemini-2.5-flash''"
      by (rule example_stream_request_fields)
    show "\<not> js_includes ''gemini-2.5-flash'' ''-image''" by (rule example_not_image)
    show "stream example_stream_request" by (rule example_stream_request_fields)
    show "generateRequestBody (env_config ?e) (generateRequestId ?e) [example_user_message]
           ''gemini-2.5-flash'' (params example_stream_request) (req_tools example_stream_request)
           \<lparr>projectId = ''p'', tok_sessionId = ''s''\<rparr> = (Inr rb, None)"
      unfolding example_env_fields example_stream_request_fields by (rule rb)
  qed
  also have "\<dots> =
      (fst (foldl (stream_callback (''chatcmpl-'' @ nat_to_string (now_id ?e))
                     (now_created ?e div 1000) ''gemini-2.5-flash'')
              (setStreamHeaders new_response, False) example_partial_events),
       [CallGetToken, CallGenerateAssistantResponse], Some example_upstream_error)"
    by (rule stream_events_failure) (rule example_env_fields)
  finally show ?thesis
    unfolding example_env_fields n5 by simp
qed

lemma example_partial_sent:
  "headersSent (fst (foldl (stream_callback ''chatcmpl-5'' 5 ''gemini-2.5-flash'')
           (setStreamHeaders new_response, False) example_partial_events))"
  unfolding stream_fold_headersSent by (simp add: example_partial_events_def)

text \<open>
  Claim C1. A failure after the stream has started is to be appended to the stream as a
  content delta, followed by the terminal chunk with finish reason \<open>stop\<close> and \<open>[DONE]\<close>. The
  code does not do so: the upstream delivers one text event and then fails, and the
  response holds that one chunk only. No error delta, no terminal chunk and no \<open>[DONE]\<close>
  are written and the response is not ended; the status stays 200.
\<close>

theorem failure_after_stream_start_unreported:
  "(case chat_completions (example_env example_partial_events (Some example_upstream_error))
           example_stream_request new_response of
      (res, calls, escaped) \<Rightarrow>
        written res =
          [SseData (createStreamChunk ''chatcmpl-5'' 5 ''gemini-2.5-flash''
                      (DeltaContent ''partial'') None)] \<and>
        headersSent res \<and> \<not> ended res \<and> statusCode res = 200 \<and> escaped = None)"
proof -
  let ?X = "fst (foldl (stream_callback ''chatcmpl-5'' 5 ''gemini-2.5-flash'')
           (setStreamHeaders new_response, False) example_partial_events)"
  have cc: "chat_completions (example_env example_partial_events (Some example_upstream_error))
           example_stream_request new_response =
        (?X, [CallGetToken, CallGenerateAssistantResponse], None)"
    unfolding chat_completions_caught[OF example_try_block_failure]
      catch_block_after_headers[OF example_partial_sent]
    by simp
  have w: "written ?X =
      [SseData (createStreamChunk ''chatcmpl-5'' 5 ''gemini-2.5-flash''
                  (DeltaContent ''partial'') None)]"
    unfolding stream_fold_written setStreamHeaders_fields
    by (simp add: new_response_def example_partial_events_def spec_delta_def)
  have e: "\<not> ended ?X"
    unfolding stream_fold_ended setStreamHeaders_fields by (simp add: new_response_def)
  have st: "statusCode ?X = 200"
    unfolding stream_fold_status setStreamHeaders_fields by (simp add: new_response_def)
  from w example_partial_sent e st show ?thesis
    unfolding cc by simp
qed

subsection \<open>Tool schema adapter\<close>

text \<open>
  On a tool with parameters the callback returns the declaration of the stripped tool and
  leaves the stripped tool behind; on a tool without parameters it raises. So the adapter
  returns exactly when every tool has parameters, and raises at the first tool without.
\<close>

lemma convert_tool_returns:
  "has_parameters t \<Longrightarrow> convert_tool t = Inr (declaration_of (strip_schema t), strip_schema t)"
  by (auto simp: has_parameters_def convert_tool_def strip_schema_def declaration_of_def
      parameters_of_def delete_key_def Let_def)

lemma convert_tool_raises:
  "\<not> has_parameters t \<Longrightarrow> convert_tool t = Inl parameters_type_error"
  by (simp add: has_parameters_def convert_tool_def)

lemma convert_tools_returns:
  "list_all has_parameters ts \<Longrightarrow>
   convert_tools ts = (Inr (map (\<lambda>t. declaration_of (strip_schema t)) ts), map strip_schema ts)"
  by (induction ts) (simp_all add: convert_tool_returns)

lemma convert_tools_raises:
  "list_all has_parameters pre \<Longrightarrow> \<not> has_parameters t \<Longrightarrow>
   convert_tools (pre @ t # post) =
     (Inl parameters_type_error, map strip_schema pre @ t # post)"
  by (induction pre) (simp_all add: convert_tool_returns convert_tool_raises)

lemma convert_tools_raises_iff:
  "fst (convert_tools ts) = Inl parameters_type_error \<longleftrightarrow> \<not> list_all has_parameters ts"
proof
  assume "fst (convert_tools ts) = Inl parameters_type_error"
  then show "\<not> list_all has_parameters ts"
    by (auto simp: convert_tools_returns)
next
  assume "\<not> list_all has_parameters ts"
  then have "\<exists>x\<in>set ts. \<not> has_parameters x"
    by (simp add: list_all_iff)
  then obtain pre t post where
    "ts = pre @ t # post" "\<not> has_parameters t" "\<forall>x\<in>set pre. \<not> \<not> has_parameters x"
    by (auto simp: split_list_first_prop_iff)
  then show "fst (convert_tools ts) = Inl parameters_type_error"
    by (simp add: convert_tools_raises list_all_iff)
qed

lemma strip_schema_fields:
  "tool_type (strip_schema t) = tool_type t"
  "fn_name (tool_fn (strip_schema t)) = fn_name (tool_fn t)"
  "fn_description (tool_fn (strip_schema t)) = fn_description (tool_fn t)"
  "has_parameters (strip_schema t) = has_parameters t"
  "''$schema'' \<notin> fst ` set (parameters_of (strip_schema t))"
  "k \<noteq> ''$schema'' \<Longrightarrow>
     map_of (parameters_of (strip_schema t)) k = map_of (parameters_of t) k"
proof -
  show "tool_type (strip_schema t) = tool_type t"
    "fn_name (tool_fn (strip_schema t)) = fn_name (tool_fn t)"
    "fn_description (tool_fn (strip_schema t)) = fn_description (tool_fn t)"
    "has_parameters (strip_schema t) = has_parameters t"
    "''$schema'' \<notin> fst ` set (parameters_of (strip_schema t))"
    by (auto simp: strip_schema_def has_parameters_def parameters_of_def split: option.splits)
  have "k \<noteq> s \<Longrightarrow> map_of (filter (\<lambda>kv. fst kv \<noteq> s) xs) k = map_of xs k"
    for s :: string and xs :: "(string \<times> json) list"
    by (induction xs) auto
  then show "k \<noteq> ''$schema'' \<Longrightarrow>
     map_of (parameters_of (strip_schema t)) k = map_of (parameters_of t) k"
    by (simp add: strip_schema_def parameters_of_def split: option.splits)
qed

lemma adapter_returns:
  "list_all has_parameters ts \<Longrightarrow>
   convertOpenAIToolsToAntigravity (Some ts) =
     (Inr (map (\<lambda>t. declaration_of (strip_schema t)) ts), Some (map strip_schema ts))"
  by (simp add: convertOpenAIToolsToAntigravity_def convert_tools_returns)

lemma adapter_raises:
  "\<not> list_all has_parameters ts \<Longrightarrow>
   fst (convertOpenAIToolsToAntigravity (Some ts)) = Inl parameters_type_error"
  using convert_tools_raises_iff[of ts]
  by (auto simp: convertOpenAIToolsToAntigravity_def split: prod.splits)

lemma adapter_returned:
  assumes "convertOpenAIToolsToAntigravity (Some ts) = (Inr ds, ts')"
  shows "list_all has_parameters ts \<and>
         ds = map (\<lambda>t. declaration_of (strip_schema t)) ts \<and> ts' = Some (map strip_schema ts)"
proof -
  have a: "list_all has_parameters ts"
  proof (rule ccontr)
    assume "\<not> list_all has_parameters ts"
    then have "fst (convertOpenAIToolsToAntigravity (Some ts)) = Inl parameters_type_error"
      by (rule adapter_raises)
    with assms show False by simp
  qed
  with assms show ?thesis by (simp add: adapter_returns)
qed

lemma generateRequestBody_tools:
  "generateRequestBody cfg rid msgs mdl ps openaiTools tok = (Inr rb, openaiTools') \<Longrightarrow>
   convertOpenAIToolsToAntigravity openaiTools = (Inr (the (tools (request rb))), openaiTools') \<and>
   tools (request rb) \<noteq> None"
  by (auto simp: generateRequestBody_def Let_def split: sum.splits prod.splits)

lemma generateRequestBody_returns:
  assumes "openaiMessageToAntigravity msgs = Inr turns"
    and "convertOpenAIToolsToAntigravity openaiTools = (Inr ds, openaiTools')"
  shows "\<exists>rb. generateRequestBody cfg rid msgs mdl ps openaiTools tok = (Inr rb, openaiTools') \<and>
              tools (request rb) = Some ds \<and> contents (request rb) = turns"
  using assms by (simp add: generateRequestBody_def Let_def)

lemma generateRequestBody_tool_raises:
  assumes "openaiMessageToAntigravity msgs = Inr turns"
    and "convertOpenAIToolsToAntigravity openaiTools = (Inl err, openaiTools')"
  shows "generateRequestBody cfg rid msgs mdl ps openaiTools tok = (Inl err, openaiTools')"
  using assms by (simp add: generateRequestBody_def Let_def)

text \<open>
  Claim C9. The adapter deletes \<open>$schema\<close> from the parameters of every tool of the caller's
  list, on the caller's own objects, before it builds the declarations: whenever the call
  returns, the caller's list is the list of the stripped tools, and every declaration is
  built from a stripped tool. The call returns when every tool of the list has parameters,
  and raises a \<open>TypeError\<close> otherwise. A stripped tool has no \<open>$schema\<close> key and is otherwise
  unchanged: its type, name and description are the same and every other key of its
  parameters has the same value. An absent list stays absent and an empty list stays empty,
  both with an empty result. The same holds for the tool list after \<open>generateRequestBody\<close>
  returns, and it returns when the messages can be translated and every tool has
  parameters.
\<close>

theorem tool_schema_stripped_in_place:
  "convertOpenAIToolsToAntigravity None = (Inr [], None) \<and>
   convertOpenAIToolsToAntigravity (Some []) = (Inr [], Some []) \<and>
   (\<forall>ds ts'. convertOpenAIToolsToAntigravity (Some ts) = (Inr ds, ts') \<longrightarrow>
      ts' = Some (map strip_schema ts) \<and> ds = map (\<lambda>t. declaration_of (strip_schema t)) ts) \<and>
   (list_all has_parameters ts \<longrightarrow>
      convertOpenAIToolsToAntigravity (Some ts) =
        (Inr (map (\<lambda>t. declaration_of (strip_schema t)) ts), Some (map strip_schema ts))) \<and>
   (\<not> list_all has_parameters ts \<longrightarrow>
      fst (convertOpenAIToolsToAntigravity (Some ts)) = Inl parameters_type_error) \<and>
   (\<forall>t. tool_type (strip_schema t) = tool_type t \<and>
        fn_name (tool_fn (strip_schema t)) = fn_name (tool_fn t) \<and>
        fn_description (tool_fn (strip_schema t)) = fn_description (tool_fn t) \<and>
        has_parameters (strip_schema t) = has_parameters t \<and>
        ''$schema'' \<notin> fst ` set (parameters_of (strip_schema t)) \<and>
        (\<forall>k. k \<noteq> ''$schema'' \<longrightarrow>
             map_of (parameters_of (strip_schema t)) k = map_of (parameters_of t) k)) \<and>
   (\<forall>rb openaiTools'.
      generateRequestBody cfg rid msgs mdl ps openaiTools tok = (Inr rb, openaiTools') \<longrightarrow>
        openaiTools' = (case openaiTools of None \<Rightarrow> None | Some xs \<Rightarrow> Some (map strip_schema xs)) \<and>
        tools (request rb) =
          Some (case openaiTools of
                  None \<Rightarrow> []
                | Some xs \<Rightarrow> map (\<lambda>t. declaration_of (strip_schema t)) xs)) \<and>
   ((\<exists>turns. openaiMessageToAntigravity msgs = Inr turns) \<and>
    (case openaiTools of None \<Rightarrow> True | Some xs \<Rightarrow> list_all has_parameters xs) \<longrightarrow>
      (\<exists>rb. generateRequestBody cfg rid msgs mdl ps openaiTools tok =
              (Inr rb, case openaiTools of None \<Rightarrow> None | Some xs \<Rightarrow> Some (map strip_schema xs))))"
proof (intro conjI allI impI)
  show "convertOpenAIToolsToAntigravity None = (Inr [], None)"
    by (simp add: convertOpenAIToolsToAntigravity_def)
  show "convertOpenAIToolsToAntigravity (Some []) = (Inr [], Some [])"
    by (simp add: convertOpenAIToolsToAntigravity_def)
next
  fix ds ts'
  assume r: "convertOpenAIToolsToAntigravity (Some ts) = (Inr ds, ts')"
  show "ts' = Some (map strip_schema ts)"
    using adapter_returned[OF r] by simp
  show "ds = map (\<lambda>t. declaration_of (strip_schema t)) ts"
    using adapter_returned[OF r] by simp
next
  assume "list_all has_parameters ts"
  then show "convertOpenAIToolsToAntigravity (Some ts) =
        (Inr (map (\<lambda>t. declaration_of (strip_schema t)) ts), Some (map strip_schema ts))"
    by (rule adapter_returns)
next
  assume "\<not> list_all has_parameters ts"
  then show "fst (convertOpenAIToolsToAntigravity (Some ts)) = Inl parameters_type_error"
    by (rule adapter_raises)
next
  fix t
  show "tool_type (strip_schema t) = tool_type t"
    "fn_name (tool_fn (strip_schema t)) = fn_name (tool_fn t)"
    "fn_description (tool_fn (strip_schema t)) = fn_description (tool_fn t)"
    "has_parameters (strip_schema t) = has_parameters t"
    "''$schema'' \<notin> fst ` set (parameters_of (strip_schema t))"
    by (rule strip_schema_fields)+
  fix k :: string
  assume "k \<noteq> ''$schema''"
  then show "map_of (parameters_of (strip_schema t)) k = map_of (parameters_of t) k"
    by (rule strip_schema_fields)
next
  fix rb openaiTools'
  assume g: "generateRequestBody cfg rid msgs mdl ps openaiTools tok = (Inr rb, openaiTools')"
  note r = generateRequestBody_tools[OF g]
  show "openaiTools' = (case openaiTools of None \<Rightarrow> None | Some xs \<Rightarrow> Some (map strip_schema xs))"
  proof (cases openaiTools)
    case None
    with r show ?thesis by (simp add: convertOpenAIToolsToAntigravity_def)
  next
    case (Some xs)
    with r adapter_returned[of xs "the (tools (request rb))" openaiTools'] show ?thesis by simp
  qed
  show "tools (request rb) =
          Some (case openaiTools of
                  None \<Rightarrow> []
                | Some xs \<Rightarrow> map (\<lambda>t. declaration_of (strip_schema t)) xs)"
  proof (cases openaiTools)
    case None
    with r show ?thesis by (auto simp: convertOpenAIToolsToAntigravity_def)
  next
    case (Some xs)
    with r adapter_returned[of xs "the (tools (request rb))" openaiTools'] show ?thesis by auto
  qed
next
  assume a: "(\<exists>turns. openaiMessageToAntigravity msgs = Inr turns) \<and>
    (case openaiTools of None \<Rightarrow> True | Some xs \<Rightarrow> list_all has_parameters xs)"
  then obtain turns where t: "openaiMessageToAntigravity msgs = Inr turns" by blast
  have "\<exists>ds. convertOpenAIToolsToAntigravity openaiTools =
      (Inr ds, case openaiTools of None \<Rightarrow> None | Some xs \<Rightarrow> Some (map strip_schema xs))"
  proof (cases openaiTools)
    case None
    then show ?thesis by (simp add: convertOpenAIToolsToAntigravity_def)
  next
    case (Some xs)
    with a show ?thesis by (simp add: adapter_returns)
  qed
  then obtain ds where "convertOpenAIToolsToAntigravity openaiTools =
      (Inr ds, case openaiTools of None \<Rightarrow> None | Some xs \<Rightarrow> Some (map strip_schema xs))" ..
  from generateRequestBody_returns[OF t this, of cfg rid mdl ps tok]
  show "\<exists>rb. generateRequestBody cfg rid msgs mdl ps openaiTools tok =
              (Inr rb, case openaiTools of None \<Rightarrow> None | Some xs \<Rightarrow> Some (map strip_schema xs))"
    by blast
qed

text \<open>
  One tool whose parameters carry \<open>$schema\<close>: the declaration and the caller's tool after the
  call, both without the key.
\<close>

lemma example_strip: "strip_schema example_tool = example_stripped_tool"
  by (simp add: strip_schema_def example_tool_def example_stripped_tool_def)

lemma example_has_parameters: "has_parameters example_tool"
  by (simp add: has_parameters_def example_tool_def)

lemma example_translation:
  "openaiMessageToAntigravity [example_user_message] =
     Inr [\<lparr>role = ''user'', parts = [TextPart ''question'']\<rparr>]"
  by (simp add: openaiMessageToAntigravity_def example_user_message_def handleUserMessage_def
      extractImagesFromContent_def)

theorem tool_schema_stripped_in_place_witness:
  "list_all has_parameters [example_tool] \<and>
   convertOpenAIToolsToAntigravity (Some [example_tool]) =
     (Inr [\<lparr>functionDeclarations =
              [\<lparr>decl_name = ''get_weather'', decl_description = Some ''Weather for a city'',
                decl_parameters =
                  [(''type'', JStr ''object''),
                   (''properties'', JObj [(''city'', JObj [(''type'', JStr ''string'')])])]\<rparr>]\<rparr>],
      Some [example_stripped_tool]) \<and>
   (\<exists>rb. generateRequestBody
          \<lparr>cfg_defaults = example_sampling, cfg_systemInstruction = None\<rparr> ''r''
          [example_user_message] ''gemini-2.5-flash'' example_sampling (Some [example_tool])
          \<lparr>projectId = ''p'', tok_sessionId = ''s''\<rparr> = (Inr rb, Some [example_stripped_tool]) \<and>
        tools (request rb) =
          Some [\<lparr>functionDeclarations =
                   [\<lparr>decl_name = ''get_weather'', decl_description = Some ''Weather for a city'',
                     decl_parameters =
                       [(''type'', JStr ''object''),
                        (''properties'',
                         JObj [(''city'', JObj [(''type'', JStr ''string'')])])]\<rparr>]\<rparr>])"
proof -
  have h: "list_all has_parameters [example_tool]"
    by (simp add: example_has_parameters)
  have d: "declaration_of example_stripped_tool =
      \<lparr>functionDeclarations =
              [\<lparr>decl_name = ''get_weather'', decl_description = Some ''Weather for a city'',
                decl_parameters =
                  [(''type'', JStr ''object''),
                   (''properties'', JObj [(''city'', JObj [(''type'', JStr ''string'')])])]\<rparr>]\<rparr>"
    by (simp add: declaration_of_def parameters_of_def example_stripped_tool_def)
  note w = tool_schema_stripped_in_place[of "[example_tool]"
      "\<lparr>cfg_defaults = example_sampling, cfg_systemInstruction = None\<rparr>" "''r''"
      "[example_user_message]" "''gemini-2.5-flash''" example_sampling "Some [example_tool]"
      "\<lparr>projectId = ''p'', tok_sessionId = ''s''\<rparr>"]
  note returns = w[THEN conjunct2, THEN conjunct2, THEN conjunct2, THEN conjunct1]
  note after_return = w[THEN conjunct2, THEN conjunct2, THEN conjunct2, THEN conjunct2,
      THEN conjunct2, THEN conjunct2, THEN conjunct1, rule_format]
  note request_returns = w[THEN conjunct2, THEN conjunct2, THEN conjunct2, THEN conjunct2,
      THEN conjunct2, THEN conjunct2, THEN conjunct2]
  from returns h have "convertOpenAIToolsToAntigravity (Some [example_tool]) =
     (Inr (map (\<lambda>t. declaration_of (strip_schema t)) [example_tool]),
      Some (map strip_schema [example_tool]))"
    by (rule mp)
  then have c: "convertOpenAIToolsToAntigravity (Some [example_tool]) =
     (Inr [declaration_of example_stripped_tool], Some [example_stripped_tool])"
    by (simp add: example_strip)
  have "(\<exists>turns. openaiMessageToAntigravity [example_user_message] = Inr turns) \<and>
      (case Some [example_tool] of None \<Rightarrow> True | Some xs \<Rightarrow> list_all has_parameters xs)"
    using example_translation h by simp
  with request_returns have "\<exists>rb. generateRequestBody
          \<lparr>cfg_defaults = example_sampling, cfg_systemInstruction = None\<rparr> ''r''
          [example_user_message] ''gemini-2.5-flash'' example_sampling (Some [example_tool])
          \<lparr>projectId = ''p'', tok_sessionId = ''s''\<rparr> =
        (Inr rb, case Some [example_tool] of None \<Rightarrow> None | Some xs \<Rightarrow> Some (map strip_schema xs))"
    by (rule mp)
  then obtain rb where
    g: "generateRequestBody
          \<lparr>cfg_defaults = example_sampling, cfg_systemInstruction = None\<rparr> ''r''
          [example_user_message] ''gemini-2.5-flash'' example_sampling (Some [example_tool])
          \<lparr>projectId = ''p'', tok_sessionId = ''s''\<rparr> = (Inr rb, Some [example_stripped_tool])"
    by (auto simp: example_strip)
  from after_return[OF g] have "tools (request rb) = Some [declaration_of example_stripped_tool]"
    by (simp add: example_strip)
  with g c h show ?thesis unfolding d by blast
qed

text \<open>
  A tool without parameters between two tools with \<open>$schema\<close>: the call raises, the first
  tool has lost its \<open>$schema\<close> and the third still has it.
\<close>

lemma tool_without_parameters_raises:
  "convertOpenAIToolsToAntigravity (Some [example_tool, example_bare_tool, example_tool]) =
     (Inl \<lparr>err_message = ''Cannot convert undefined or null to object'', err_status = None\<rparr>,
      Some [example_stripped_tool, example_bare_tool, example_tool])"
proof -
  have "\<not> has_parameters example_bare_tool"
    by (simp add: has_parameters_def example_bare_tool_def)
  with convert_tools_raises[of "[example_tool]" example_bare_tool "[example_tool]"]
  show ?thesis
    by (simp add: convertOpenAIToolsToAntigravity_def example_has_parameters example_strip
        parameters_type_error_def)
qed

lemma request_with_bare_tool_raises:
  "generateRequestBody
     \<lparr>cfg_defaults = example_sampling, cfg_systemInstruction = None\<rparr> ''r''
     [example_user_message] ''gemini-2.5-flash'' example_sampling
     (Some [example_tool, example_bare_tool, example_tool])
     \<lparr>projectId = ''p'', tok_sessionId = ''s''\<rparr> =
   (Inl \<lparr>err_message = ''Cannot convert undefined or null to object'', err_status = None\<rparr>,
    Some [example_stripped_tool, example_bare_tool, example_tool])"
  by (rule generateRequestBody_tool_raises[OF example_translation tool_without_parameters_raises])

subsection \<open>Auth middleware\<close>

text \<open>
  Claim C10. With a key configured, on a path under \<open>/v1/\<close> the middleware lets the request
  pass exactly when the header, after the optional prefix \<open>Bearer\<close> is stripped, equals the
  key, and answers 401 with \<open>{error: "Invalid API Key"}\<close> otherwise, also when the header is
  absent. So it accepts the header that is \<open>Bearer\<close> followed by the key, and the header
  without that prefix that is the key itself. With no key configured, and on any other path,
  every request passes.
\<close>

theorem auth_key_check:
  "(truthy_string apiKey \<and> js_startsWith path ''/v1/'' \<longrightarrow>
      auth_middleware apiKey path authHeader =
        (if spec_provided_key authHeader = apiKey then Next else invalid_key_response) \<and>
      auth_middleware apiKey path None = invalid_key_response \<and>
      (\<forall>k. apiKey = Some k \<longrightarrow> auth_middleware apiKey path (Some (''Bearer '' @ k)) = Next) \<and>
      (\<forall>h. \<not> js_startsWith h ''Bearer '' \<and> apiKey = Some h \<longrightarrow>
           auth_middleware apiKey path (Some h) = Next)) \<and>
   (\<not> truthy_string apiKey \<longrightarrow> auth_middleware apiKey path authHeader = Next) \<and>
   (\<not> js_startsWith path ''/v1/'' \<longrightarrow> auth_middleware apiKey path authHeader = Next)"
proof (intro conjI impI allI)
  assume a: "truthy_string apiKey \<and> js_startsWith path ''/v1/''"
  have gen: "auth_middleware apiKey path h =
        (if spec_provided_key h = apiKey then Next else invalid_key_response)" for h
    using a
    by (cases h)
       (auto simp: auth_middleware_def spec_provided_key_def js_startsWith_def
          invalid_key_response_def Let_def eval_nat_numeral)
  show "auth_middleware apiKey path authHeader =
        (if spec_provided_key authHeader = apiKey then Next else invalid_key_response)"
    by (rule gen)
  show "auth_middleware apiKey path None = invalid_key_response"
    unfolding gen using a by (cases apiKey) (simp_all add: spec_provided_key_def)
  show "auth_middleware apiKey path (Some (''Bearer '' @ k)) = Next" if "apiKey = Some k" for k
    unfolding gen using that by (simp add: spec_provided_key_def)
  show "auth_middleware apiKey path (Some h) = Next"
    if "\<not> js_startsWith h ''Bearer '' \<and> apiKey = Some h" for h
    unfolding gen using that by (simp add: spec_provided_key_def js_startsWith_def)
next
  show "auth_middleware apiKey path authHeader = Next" if "\<not> truthy_string apiKey"
    using that by (simp add: auth_middleware_def)
  show "auth_middleware apiKey path authHeader = Next" if "\<not> js_startsWith path ''/v1/''"
    using that by (simp add: auth_middleware_def)
qed

lemma example_v1_path: "js_startsWith ''/v1/chat/completions'' ''/v1/''"
  by (simp add: js_startsWith_def)

lemma example_key_not_bearer: "\<not> js_startsWith ''secret'' ''Bearer ''"
  by (simp add: js_startsWith_def)

theorem auth_key_check_witness:
  "truthy_string (Some ''secret'') \<and> js_startsWith ''/v1/chat/completions'' ''/v1/'' \<and>
   auth_middleware (Some ''secret'') ''/v1/chat/completions'' (Some ''Bearer secret'') = Next \<and>
   auth_middleware (Some ''secret'') ''/v1/chat/completions'' (Some ''secret'') = Next \<and>
   auth_middleware (Some ''secret'') ''/v1/chat/completions'' None = invalid_key_response \<and>
   auth_middleware (Some ''secret'') ''/v1/chat/completions'' (Some ''Bearer wrong'') =
     invalid_key_response \<and>
   auth_middleware None ''/v1/chat/completions'' None = Next"
  using auth_key_check[of "Some ''secret''" "''/v1/chat/completions''" "Some ''Bearer wrong''"]
    auth_key_check[of None "''/v1/chat/completions''" None]
    example_v1_path example_key_not_bearer
  by (simp add: spec_provided_key_def)

text \<open>
  The stripping is decided by the header alone: a header that starts with the prefix is
  always stripped, so a configured key that itself starts with the prefix is refused when it
  is sent bare.
\<close>

lemma bearer_prefixed_key_bare_header_rejected:
  "auth_middleware (Some ''Bearer x'') ''/v1/models'' (Some ''Bearer x'') = invalid_key_response"
  by (simp add: auth_middleware_def js_startsWith_def invalid_key_response_def)

end
